theory Spec2Isabelle
  imports Main "HOL-Library.AList"
begin

section \<open>Authorization gate (src/auth/__init__.py, class AuthManager)\<close>

text \<open>
  The configuration hands the gate two parsed identifier lists
  (\<open>settings.get_allowed_user_ids()\<close>, \<open>settings.get_admin_user_ids()\<close>) and the
  signing secret. User identifiers are Python integers, hence \<open>int\<close>.
\<close>

record settings =
  get_allowed_user_ids :: "int list"
  get_admin_user_ids :: "int list"
  backend_jwt_secret :: string
  backend_api_key :: string
  max_file_size_mb :: int
  session_timeout_minutes :: int
  search_results_limit :: int

record auth_manager =
  jwt_secret :: string
  allowed_users :: "int set"
  admin_users :: "int set"
  allow_all_users :: bool

text \<open>
  \<open>AuthManager.__init__\<close>: both sets are built from the configured lists, and the
  allow-all flag is \<open>len(self.allowed_users) == 0\<close>, evaluated here and nowhere else.
\<close>

definition AuthManager_init :: "settings \<Rightarrow> auth_manager" where
  "AuthManager_init cfg =
     \<lparr> jwt_secret = backend_jwt_secret cfg,
       allowed_users = set (get_allowed_user_ids cfg),
       admin_users = set (get_admin_user_ids cfg),
       allow_all_users = (card (set (get_allowed_user_ids cfg)) = 0) \<rparr>"

definition is_user_allowed :: "auth_manager \<Rightarrow> int \<Rightarrow> bool" where
  "is_user_allowed a user_id =
     (if allow_all_users a then True else user_id \<in> allowed_users a)"

definition is_user_admin :: "auth_manager \<Rightarrow> int \<Rightarrow> bool" where
  "is_user_admin a user_id = (user_id \<in> admin_users a)"

text \<open>
  The two mutators return the boolean result together with the updated gate (the Python
  mutates \<open>self.allowed_users\<close> in place). Their \<open>logger.info\<close> lines carry no state
  and are left out.
\<close>

definition add_user :: "auth_manager \<Rightarrow> int \<Rightarrow> bool \<times> auth_manager" where
  "add_user a user_id =
     (if user_id \<notin> allowed_users a
      then (True, a\<lparr>allowed_users := insert user_id (allowed_users a)\<rparr>)
      else (False, a))"

definition remove_user :: "auth_manager \<Rightarrow> int \<Rightarrow> bool \<times> auth_manager" where
  "remove_user a user_id =
     (if user_id \<in> allowed_users a \<and> user_id \<notin> admin_users a
      then (True, a\<lparr>allowed_users := allowed_users a - {user_id}\<rparr>)
      else (False, a))"

text \<open>
  A run of the admin surface: any sequence of \<open>add_user\<close> and \<open>remove_user\<close> calls
  applied to a gate, results discarded.
\<close>

datatype auth_op = AddUser int | RemoveUser int

fun apply_auth_op :: "auth_manager \<Rightarrow> auth_op \<Rightarrow> auth_manager" where
  "apply_auth_op a (AddUser u) = snd (add_user a u)"
| "apply_auth_op a (RemoveUser u) = snd (remove_user a u)"

definition run_auth_ops :: "auth_op list \<Rightarrow> auth_manager \<Rightarrow> auth_manager" where
  "run_auth_ops ops a = foldl apply_auth_op a ops"

text \<open>Concrete gates used to exercise the theorems.\<close>

definition cfg_two_users :: settings where
  "cfg_two_users =
     \<lparr> get_allowed_user_ids = [123, 456], get_admin_user_ids = [123],
       backend_jwt_secret = ''test_secret'', backend_api_key = ''test_api_key'',
       max_file_size_mb = 50,
       session_timeout_minutes = 30, search_results_limit = 10 \<rparr>"

definition cfg_open :: settings where
  "cfg_open =
     \<lparr> get_allowed_user_ids = [], get_admin_user_ids = [123],
       backend_jwt_secret = ''test_secret'', backend_api_key = ''test_api_key'',
       max_file_size_mb = 50,
       session_timeout_minutes = 30, search_results_limit = 10 \<rparr>"

definition cfg_one_user :: settings where
  "cfg_one_user =
     \<lparr> get_allowed_user_ids = [456], get_admin_user_ids = [],
       backend_jwt_secret = ''s'', backend_api_key = ''k'', max_file_size_mb = 50,
       session_timeout_minutes = 30, search_results_limit = 10 \<rparr>"

definition cfg_closed :: settings where
  "cfg_closed =
     \<lparr> get_allowed_user_ids = [456], get_admin_user_ids = [123],
       backend_jwt_secret = ''test_secret'', backend_api_key = ''test_api_key'',
       max_file_size_mb = 50,
       session_timeout_minutes = 30, search_results_limit = 10 \<rparr>"

section \<open>Values, the process and its environment\<close>

text \<open>
  Values that travel as JSON: the payload of a backend response, the session state
  written to the store. A Python \<open>dict\<close> with string keys is an association list in
  insertion order; Python's \<open>None\<close> is \<open>JNull\<close>.
\<close>

datatype json =
    JNull
  | JBool bool
  | JInt int
  | JStr string
  | JList "json list"
  | JObj "(string \<times> json) list"

type_synonym pydict = "(string \<times> json) list"

text \<open>\<open>d.get(k)\<close>: the value, or \<open>None\<close> when the key is missing.\<close>

definition dict_get :: "pydict \<Rightarrow> string \<Rightarrow> json" where
  "dict_get d k = (case map_of d k of None \<Rightarrow> JNull | Some v \<Rightarrow> v)"

text \<open>\<open>d.update(updates)\<close>: each pair of \<open>updates\<close> is assigned in turn.\<close>

definition dict_update :: "pydict \<Rightarrow> pydict \<Rightarrow> pydict" where
  "dict_update d updates = foldl (\<lambda>acc kv. AList.update (fst kv) (snd kv) acc) d updates"

text \<open>Python truthiness, as \<open>if x:\<close> and \<open>x or y\<close> read a value.\<close>

fun truthy :: "json \<Rightarrow> bool" where
  "truthy JNull = False"
| "truthy (JBool b) = b"
| "truthy (JInt i) = (i \<noteq> 0)"
| "truthy (JStr s) = (s \<noteq> [])"
| "truthy (JList xs) = (xs \<noteq> [])"
| "truthy (JObj d) = (d \<noteq> [])"

text \<open>\<open>str(n)\<close> for an integer: decimal digits, a minus sign for a negative number.\<close>

fun str_nat :: "nat \<Rightarrow> string" where
  "str_nat n =
     (if n < 10 then [char_of (48 + n)]
      else str_nat (n div 10) @ [char_of (48 + n mod 10)])"

declare str_nat.simps [simp del]

definition str_int :: "int \<Rightarrow> string" where
  "str_int i = (if i < 0 then CHR ''-'' # str_nat (nat (- i)) else str_nat (nat i))"

text \<open>
  \<open>int(s)\<close> on a string that \<open>str\<close> produced: the digits are read back in base ten, a
  leading minus sign negates.
\<close>

definition nat_of_digits :: "string \<Rightarrow> nat" where
  "nat_of_digits s = foldl (\<lambda>acc c. 10 * acc + (of_char c - 48)) 0 s"

definition int_of_str :: "string \<Rightarrow> int" where
  "int_of_str s =
     (case s of
        [] \<Rightarrow> 0
      | c # ds \<Rightarrow> if c = CHR ''-'' then - int (nat_of_digits ds) else int (nat_of_digits s))"

datatype exn =
    ConnectionError
  | ResponseError
  | AttributeError
  | JWTError

datatype level = INFO | WARNING | ERROR

text \<open>A log line: level, event name and the named fields that matter to a reader.\<close>

type_synonym log_entry = "level \<times> string \<times> (string \<times> string) list"

subsection \<open>Backend requests and what the transport gives back\<close>

text \<open>
  One request as \<open>BackendClient._make_request\<close> issues it: method, endpoint, acting user,
  the JSON body (\<open>json=data if data else None\<close>), query parameters and the attached file
  (name and bytes). The authentication headers are built by \<open>get_auth_headers\<close> from the
  acting user alone and are not repeated in the record.
\<close>

record request =
  req_method :: string
  req_endpoint :: string
  req_user_id :: int
  req_json :: "pydict option"
  req_params :: "pydict option"
  req_files :: "(string \<times> string) option"

text \<open>
  What \<open>client.request\<close> does: it returns a response (status code, raw body, and what
  \<open>response.json()\<close> gives on that body: the parsed value, or the message of the decoding
  error it raises), or it raises \<open>httpx.TimeoutException\<close>, or any other exception with
  its message \<open>str(e)\<close>.
\<close>

datatype http_outcome =
    Responded int string "string + pydict"
  | TimeoutException
  | OtherException string

subsection \<open>Messages handed to the chat transport\<close>

text \<open>
  The wording of a message is fixed text around a few parameters; each template of the
  handlers is one constructor carrying its parameters.
\<close>

datatype body =
    Unauthorized int
  | AdminRequired
  | WaitingForFile
  | QueryTooShort
  | Hello
  | Searching string
  | SearchError string json
  | SearchResponse pydict string
  | NextActions
  | RefinedSearching string
  | RefinedResponse pydict string
  | RefinedError json
  | UseUploadFirst
  | UnsupportedFileType
  | FileTooLarge int nat
  | UnsupportedExtension "string option"
  | Uploading string string
  | UploadSuccess string json json
  | QuickActions json
  | UploadFailed string json
  | UploadError string

datatype outgoing =
    ReplyText int body
  | SendMessage int body
  | EditText nat body
  | DeleteMessage int nat
  | ChatAction int string

subsection \<open>The world a handler runs in\<close>

text \<open>
  Process state (the authorization gate registered in \<open>bot_data\<close>, the configuration, the
  storage object's \<open>_connected\<close> flag), the environment (the Redis server: whether it
  answers, and its entries with their expiry instants; the clock in seconds; how the
  backend answers a request) and the traces of what the process did (backend requests
  issued, chat messages sent, log lines).
\<close>

record world =
  auth :: "auth_manager option"
  config :: settings
  storage_connected :: bool
  redis_reachable :: bool
  redis_entries :: "string \<rightharpoonup> (pydict \<times> nat option)"
  clock :: nat
  backend :: "request \<Rightarrow> http_outcome"
  requests :: "request list"
  outbox :: "outgoing list"
  logged :: "log_entry list"

definition log_fields :: "level \<Rightarrow> string \<Rightarrow> (string \<times> string) list \<Rightarrow> world \<Rightarrow> world" where
  "log_fields lv event kvs w = w\<lparr>logged := logged w @ [(lv, event, kvs)]\<rparr>"

definition log_line :: "level \<Rightarrow> string \<Rightarrow> world \<Rightarrow> world" where
  "log_line lv event w = log_fields lv event [] w"

section \<open>Session store (src/storage/__init__.py)\<close>

subsection \<open>The Redis server\<close>

text \<open>
  Modelled from the spec: the Redis server itself is not code of the repository. The spec's
  session-store contract (4.1, 6) is: each entry carries an optional time-to-live after
  which it is treated as absent; the time-to-live is the store's native expiry; a transport
  failure makes the command fail. So every command raises when the server does not answer;
  an entry written with a time-to-live \<open>ttl\<close> at instant \<open>c\<close> is readable at every instant
  before \<open>c + ttl\<close> and absent from \<open>c + ttl\<close> on; a write replaces the entry together
  with its expiry. \<open>SETEX\<close> refuses a time-to-live that is not positive (the server's own
  rule; the storage class never passes one when the configured timeout is positive).
\<close>

definition redis_ping :: "world \<Rightarrow> exn + unit" where
  "redis_ping w = (if redis_reachable w then Inr () else Inl ConnectionError)"

definition redis_live :: "nat \<Rightarrow> (pydict \<times> nat option) option \<Rightarrow> pydict option" where
  "redis_live now e =
     (case e of
        None \<Rightarrow> None
      | Some (v, None) \<Rightarrow> Some v
      | Some (v, Some expiry) \<Rightarrow> if now < expiry then Some v else None)"

definition redis_get :: "world \<Rightarrow> string \<Rightarrow> exn + pydict option" where
  "redis_get w key =
     (if redis_reachable w then Inr (redis_live (clock w) (redis_entries w key))
      else Inl ConnectionError)"

definition redis_setex :: "world \<Rightarrow> string \<Rightarrow> int \<Rightarrow> pydict \<Rightarrow> (exn + unit) \<times> world" where
  "redis_setex w key ttl data =
     (if \<not> redis_reachable w then (Inl ConnectionError, w)
      else if ttl \<le> 0 then (Inl ResponseError, w)
      else (Inr (),
            w\<lparr>redis_entries := (redis_entries w)(key \<mapsto> (data, Some (clock w + nat ttl)))\<rparr>))"

definition redis_set :: "world \<Rightarrow> string \<Rightarrow> pydict \<Rightarrow> (exn + unit) \<times> world" where
  "redis_set w key data =
     (if \<not> redis_reachable w then (Inl ConnectionError, w)
      else (Inr (), w\<lparr>redis_entries := (redis_entries w)(key \<mapsto> (data, None))\<rparr>))"

definition redis_delete :: "world \<Rightarrow> string \<Rightarrow> (exn + unit) \<times> world" where
  "redis_delete w key =
     (if \<not> redis_reachable w then (Inl ConnectionError, w)
      else (Inr (), w\<lparr>redis_entries := (redis_entries w)(key := None)\<rparr>))"

subsection \<open>class RedisStateStorage\<close>

text \<open>
  Every method returns what the Python returns or raises (\<open>Inl\<close> is the exception that
  leaves the method) together with the world after it. \<open>connect\<close> pings the server the
  first time; each method awaits \<open>connect\<close> before its \<open>try\<close> block, so an exception of
  \<open>connect\<close> leaves the method, while an exception of the command inside the \<open>try\<close> is
  logged and swallowed. Values are serialised by \<open>json.dumps\<close> and read back by
  \<open>json.loads\<close>; on the JSON values of this model the two are inverse and are not written
  out.
\<close>

definition connect :: "world \<Rightarrow> (exn + unit) \<times> world" where
  "connect w =
     (if \<not> storage_connected w then
        (case redis_ping w of
           Inl e \<Rightarrow> (Inl e, w)
         | Inr _ \<Rightarrow>
             (Inr (), log_line INFO ''Redis connection established''
                        (w\<lparr>storage_connected := True\<rparr>)))
      else (Inr (), w))"

definition RedisStateStorage_get :: "world \<Rightarrow> string \<Rightarrow> (exn + pydict option) \<times> world" where
  "RedisStateStorage_get w key =
     (case connect w of
        (Inl e, w1) \<Rightarrow> (Inl e, w1)
      | (Inr _, w1) \<Rightarrow>
          (case redis_get w1 key of
             Inl e \<Rightarrow> (Inr None, log_line ERROR ''Redis get error'' w1)
           | Inr None \<Rightarrow> (Inr None, w1)
           | Inr (Some data) \<Rightarrow> (Inr (Some data), w1)))"

definition RedisStateStorage_set ::
  "world \<Rightarrow> string \<Rightarrow> pydict \<Rightarrow> int option \<Rightarrow> (exn + unit) \<times> world" where
  "RedisStateStorage_set w key data ttl =
     (case connect w of
        (Inl e, w1) \<Rightarrow> (Inl e, w1)
      | (Inr _, w1) \<Rightarrow>
          (case (case ttl of
                   None \<Rightarrow> redis_set w1 key data
                 | Some t \<Rightarrow> if t \<noteq> 0 then redis_setex w1 key t data
                            else redis_set w1 key data) of
             (Inl e, w2) \<Rightarrow> (Inr (), log_line ERROR ''Redis set error'' w2)
           | (Inr _, w2) \<Rightarrow> (Inr (), w2)))"

definition RedisStateStorage_delete :: "world \<Rightarrow> string \<Rightarrow> (exn + unit) \<times> world" where
  "RedisStateStorage_delete w key =
     (case connect w of
        (Inl e, w1) \<Rightarrow> (Inl e, w1)
      | (Inr _, w1) \<Rightarrow>
          (case redis_delete w1 key of
             (Inl e, w2) \<Rightarrow> (Inr (), log_line ERROR ''Redis delete error'' w2)
           | (Inr _, w2) \<Rightarrow> (Inr (), w2)))"

subsection \<open>class ConversationState\<close>

definition default_ttl :: "world \<Rightarrow> int" where
  "default_ttl w = session_timeout_minutes (config w) * 60"

definition get_key :: "int \<Rightarrow> string" where
  "get_key user_id = ''conversation:'' @ str_int user_id @ '':main''"

text \<open>
  \<open>datetime.utcnow().isoformat()\<close>: the reading of the clock as a string. The calendar
  rendering is not modelled; the string is the count of seconds in decimal.
\<close>

definition utcnow_isoformat :: "world \<Rightarrow> string" where
  "utcnow_isoformat w = str_nat (clock w)"

definition get_state :: "world \<Rightarrow> int \<Rightarrow> (exn + pydict) \<times> world" where
  "get_state w user_id =
     (case RedisStateStorage_get w (get_key user_id) of
        (Inl e, w1) \<Rightarrow> (Inl e, w1)
      | (Inr None, w1) \<Rightarrow> (Inr [], w1)
      | (Inr (Some st), w1) \<Rightarrow> (Inr (if st \<noteq> [] then st else []), w1))"

text \<open>\<open>state["updated_at"] = datetime.utcnow().isoformat()\<close>\<close>

definition stamp_updated_at :: "world \<Rightarrow> pydict \<Rightarrow> pydict" where
  "stamp_updated_at w st = AList.update ''updated_at'' (JStr (utcnow_isoformat w)) st"

definition set_state :: "world \<Rightarrow> int \<Rightarrow> pydict \<Rightarrow> (exn + unit) \<times> world" where
  "set_state w user_id st =
     RedisStateStorage_set w (get_key user_id) (stamp_updated_at w st) (Some (default_ttl w))"

definition update_state :: "world \<Rightarrow> int \<Rightarrow> pydict \<Rightarrow> (exn + unit) \<times> world" where
  "update_state w user_id updates =
     (case get_state w user_id of
        (Inl e, w1) \<Rightarrow> (Inl e, w1)
      | (Inr current_state, w1) \<Rightarrow> set_state w1 user_id (dict_update current_state updates))"

definition clear_state :: "world \<Rightarrow> int \<Rightarrow> (exn + unit) \<times> world" where
  "clear_state w user_id = RedisStateStorage_delete w (get_key user_id)"

definition set_flow :: "world \<Rightarrow> int \<Rightarrow> string \<Rightarrow> pydict option \<Rightarrow> (exn + unit) \<times> world" where
  "set_flow w user_id flow data =
     update_state w user_id
       ((''current_flow'', JStr flow) #
        (case data of
           None \<Rightarrow> []
         | Some d \<Rightarrow> if d \<noteq> [] then [(''flow_data'', JObj d)] else []))"

definition get_flow :: "world \<Rightarrow> int \<Rightarrow> (exn + json) \<times> world" where
  "get_flow w user_id =
     (case get_state w user_id of
        (Inl e, w1) \<Rightarrow> (Inl e, w1)
      | (Inr st, w1) \<Rightarrow> (Inr (dict_get st ''current_flow''), w1))"

text \<open>The same world at another reading of the clock: time passing in the environment.\<close>

definition at_time :: "world \<Rightarrow> nat \<Rightarrow> world" where
  "at_time w now = w\<lparr>clock := now\<rparr>"

text \<open>
  Worlds for exercising the store: nothing stored and the server answering; the same with
  a configured session timeout of 0 minutes; the same with the server not answering and the storage object not yet connected (the state the
  process is in when it was started through \<open>run_polling_sync\<close>, which never calls
  \<open>connect\<close>); and with the connection made before the server stopped answering.
\<close>

definition world0 :: world where
  "world0 =
     \<lparr> auth = Some (AuthManager_init cfg_two_users), config = cfg_two_users,
       storage_connected = False, redis_reachable = True, redis_entries = Map.empty,
       clock = 1000, backend = (\<lambda>r. TimeoutException), requests = [], outbox = [],
       logged = [] \<rparr>"

definition world_no_timeout :: world where
  "world_no_timeout = world0\<lparr>config := cfg_two_users\<lparr>session_timeout_minutes := 0\<rparr>\<rparr>"

definition world_down :: world where
  "world_down = world0\<lparr>redis_reachable := False\<rparr>"

definition world_lost :: world where
  "world_lost = world0\<lparr>storage_connected := True, redis_reachable := False\<rparr>"

text \<open>The world \<open>world0\<close> with a backend that gives the same outcome to every request.\<close>

definition world_backend :: "http_outcome \<Rightarrow> world" where
  "world_backend out = world0\<lparr>backend := (\<lambda>r. out)\<rparr>"

section \<open>Backend tokens (src/auth/__init__.py)\<close>

subsection \<open>The token library\<close>

text \<open>
  Modelled from the spec: \<open>jwt.encode\<close> and \<open>jwt.decode\<close> belong to the python-jose library,
  not to the repository. The spec (4.3) says a token is a signed, time-limited credential
  asserting the user id, and that verification validates signature and expiry, a token
  that is invalid, expired or tampered with being rejected. So a token is either a string
  that is no token at all, or an algorithm name, the claims and a signature; the
  signature is a keyed function \<open>mac\<close> of algorithm and claims, left as a parameter;
  decoding rejects a string that is no token, an algorithm outside the accepted list, a
  signature that is not the one \<open>mac\<close> gives for the key, and an \<open>exp\<close> claim that the
  clock has passed. Instants are whole seconds.
\<close>

datatype token =
    Malformed string
  | Signed string pydict string

type_synonym mac = "string \<Rightarrow> string \<times> pydict \<Rightarrow> string"

definition jwt_encode :: "mac \<Rightarrow> pydict \<Rightarrow> string \<Rightarrow> string \<Rightarrow> token" where
  "jwt_encode mac claims key algorithm = Signed algorithm claims (mac key (algorithm, claims))"

definition jwt_decode :: "mac \<Rightarrow> int \<Rightarrow> token \<Rightarrow> string \<Rightarrow> string list \<Rightarrow> exn + pydict" where
  "jwt_decode mac now tok key algorithms =
     (case tok of
        Malformed _ \<Rightarrow> Inl JWTError
      | Signed alg claims signature \<Rightarrow>
          if alg \<notin> set algorithms then Inl JWTError
          else if signature \<noteq> mac key (alg, claims) then Inl JWTError
          else (case map_of claims ''exp'' of
                  None \<Rightarrow> Inr claims
                | Some (JInt e) \<Rightarrow> if e < now then Inl JWTError else Inr claims
                | Some _ \<Rightarrow> Inl JWTError))"

subsection \<open>AuthManager.create_backend_token, verify_backend_token\<close>

text \<open>
  \<open>now\<close> is \<open>datetime.utcnow()\<close> in seconds; \<open>timedelta(minutes=expires_minutes)\<close> is
  \<open>60 * expires_minutes\<close> seconds. \<open>verify_backend_token\<close> turns every \<open>JWTError\<close> into
  \<open>None\<close> (its warning line is left out).
\<close>

definition create_backend_token :: "mac \<Rightarrow> auth_manager \<Rightarrow> int \<Rightarrow> int \<Rightarrow> int \<Rightarrow> token" where
  "create_backend_token mac a now user_id expires_minutes =
     (let expire = now + 60 * expires_minutes;
          payload = [(''sub'', JStr (str_int user_id)),
                     (''exp'', JInt expire),
                     (''iat'', JInt now),
                     (''type'', JStr ''bot_user'')]
      in jwt_encode mac payload (jwt_secret a) ''HS256'')"

definition verify_backend_token :: "mac \<Rightarrow> auth_manager \<Rightarrow> int \<Rightarrow> token \<Rightarrow> pydict option" where
  "verify_backend_token mac a now tok =
     (case jwt_decode mac now tok (jwt_secret a) [''HS256''] of
        Inl e \<Rightarrow> None
      | Inr payload \<Rightarrow> Some payload)"

text \<open>
  The user a verified payload speaks for, as \<open>verify_admin_token\<close> of src/server.py
  reads it: \<open>int(payload.get("sub", 0))\<close>.
\<close>

definition subject_user_id :: "pydict \<Rightarrow> int" where
  "subject_user_id payload =
     (case map_of payload ''sub'' of
        None \<Rightarrow> 0
      | Some (JStr s) \<Rightarrow> int_of_str s
      | Some (JInt i) \<Rightarrow> i
      | Some _ \<Rightarrow> 0)"

text \<open>The same token with another signature: what tampering with the signature gives.\<close>

fun with_signature :: "token \<Rightarrow> string \<Rightarrow> token" where
  "with_signature (Signed alg claims signature) s = Signed alg claims s"
| "with_signature (Malformed t) s = Malformed t"

fun signature_of :: "token \<Rightarrow> string" where
  "signature_of (Signed alg claims signature) = signature"
| "signature_of (Malformed t) = []"

text \<open>A keyed function for exercising the theorems: the key followed by the subject.\<close>

definition toy_mac :: mac where
  "toy_mac key msg =
     key @ (case dict_get (snd msg) ''sub'' of JStr s \<Rightarrow> s | _ \<Rightarrow> [])"

section \<open>Backend client (src/backend/__init__.py)\<close>

text \<open>The classified failures, as the dictionaries \<open>_make_request\<close> returns.\<close>

definition error_dict :: "string \<Rightarrow> pydict" where
  "error_dict msg = [(''error'', JStr msg)]"

definition auth_failed :: pydict where
  "auth_failed = error_dict ''Authentication failed''"

definition not_found :: pydict where
  "not_found = error_dict ''Endpoint not found''"

definition timeout :: pydict where
  "timeout = error_dict ''Request timeout''"

definition http_error :: "int \<Rightarrow> pydict" where
  "http_error status = error_dict (''Request failed with status '' @ str_int status)"

definition transport_error :: "string \<Rightarrow> pydict" where
  "transport_error msg = error_dict (''Request failed: '' @ msg)"

text \<open>The request \<open>_make_request\<close> issues for given arguments.\<close>

definition request_of ::
  "string \<Rightarrow> string \<Rightarrow> int \<Rightarrow> pydict option \<Rightarrow> pydict option \<Rightarrow> (string \<times> string) option \<Rightarrow>
     request" where
  "request_of method endpoint user_id data params files =
     \<lparr> req_method = method, req_endpoint = endpoint, req_user_id = user_id,
       req_json = (case data of None \<Rightarrow> None | Some d \<Rightarrow> if d \<noteq> [] then Some d else None),
       req_params = params, req_files = files \<rparr>"

text \<open>
  \<open>BackendClient._make_request\<close>. The request is issued (appended to the trace) and the
  transport's outcome is classified. Everything from \<open>client.request\<close> on, the
  \<open>response.json()\<close> of the 200 branch included, runs inside the \<open>try\<close>: the timeout handler
  comes first, the catch-all second.
\<close>

definition make_request ::
  "world \<Rightarrow> string \<Rightarrow> string \<Rightarrow> int \<Rightarrow> pydict option \<Rightarrow> pydict option \<Rightarrow>
     (string \<times> string) option \<Rightarrow> pydict \<times> world" where
  "make_request w method endpoint user_id data params files =
     (let req = request_of method endpoint user_id data params files;
          w1 = w\<lparr>requests := requests w @ [req]\<rparr>
      in case backend w req of
           Responded status_code body parsed \<Rightarrow>
             (let w2 = log_fields INFO ''Backend request''
                         [(''endpoint'', endpoint), (''status'', str_int status_code)] w1
              in if status_code = 200 then
                   (case parsed of
                      Inr v \<Rightarrow> (v, w2)
                    | Inl msg \<Rightarrow>
                        (transport_error msg,
                         log_fields ERROR ''Backend request exception''
                           [(''endpoint'', endpoint), (''error'', msg)] w2))
                 else if status_code = 401 then
                   (auth_failed, log_line WARNING ''Backend authentication failed'' w2)
                 else if status_code = 404 then
                   (not_found,
                    log_fields WARNING ''Backend endpoint not found''
                      [(''endpoint'', endpoint)] w2)
                 else
                   (http_error status_code,
                    log_fields ERROR ''Backend request failed''
                      [(''status'', str_int status_code), (''response'', body)] w2))
         | TimeoutException \<Rightarrow>
             (timeout,
              log_fields ERROR ''Backend request timeout'' [(''endpoint'', endpoint)] w1)
         | OtherException msg \<Rightarrow>
             (transport_error msg,
              log_fields ERROR ''Backend request exception''
                [(''endpoint'', endpoint), (''error'', msg)] w1))"


definition upload_file :: "world \<Rightarrow> int \<Rightarrow> string \<Rightarrow> string \<Rightarrow> pydict \<Rightarrow> pydict \<times> world" where
  "upload_file w user_id file_data filename metadata =
     make_request w ''POST'' ''/api/upload'' user_id
       (Some [(''user_id'', JInt user_id), (''metadata'', JObj metadata)])
       None (Some (filename, file_data))"

section \<open>Handlers (src/auth/__init__.py, src/handlers, src/server.py)\<close>

subsection \<open>Updates from the chat transport\<close>

text \<open>
  An update is one action of a user. A text or file message has \<open>message\<close> set and no
  \<open>callback_query\<close>; a button press has \<open>callback_query\<close> set and \<open>message\<close> is \<open>None\<close>
  (the pressed message hangs off the query). An attached file carries its identifier,
  name, size, type and the bytes a download gives.
\<close>

record file_obj =
  file_id :: string
  file_name :: "string option"
  file_size :: "nat option"
  mime_type :: "string option"
  file_bytes :: string

record message =
  message_text :: "string option"
  document :: "file_obj option"
  photo :: "file_obj list"
  voice :: "file_obj option"
  audio :: "file_obj option"
  caption :: "string option"

record callback_query =
  query_data :: string

record update =
  effective_user_id :: int
  effective_chat_id :: int
  message :: "message option"
  callback_query :: "callback_query option"

type_synonym 'a io = "world \<Rightarrow> (exn + 'a) \<times> world"

type_synonym handler = "update \<Rightarrow> unit io"

text \<open>Sequencing: an exception of the first step leaves the whole.\<close>

definition bind_io :: "'a io \<Rightarrow> ('a \<Rightarrow> 'b io) \<Rightarrow> 'b io" where
  "bind_io m f w = (case m w of (Inl e, w1) \<Rightarrow> (Inl e, w1) | (Inr x, w1) \<Rightarrow> f x w1)"

definition return_io :: "'a \<Rightarrow> 'a io" where
  "return_io x w = (Inr x, w)"

definition send :: "outgoing \<Rightarrow> world \<Rightarrow> world" where
  "send x w = w\<lparr>outbox := outbox w @ [x]\<rparr>"

text \<open>
  \<open>update.message.reply_text(...)\<close>: an attribute error when the update has no message;
  otherwise the message goes out to the chat and its identifier (its position in the
  trace) is returned.
\<close>

definition reply_text :: "update \<Rightarrow> body \<Rightarrow> nat io" where
  "reply_text u b w =
     (case message u of
        None \<Rightarrow> (Inl AttributeError, w)
      | Some m \<Rightarrow> (Inr (length (outbox w)), send (ReplyText (effective_chat_id u) b) w))"

subsection \<open>The guards require_auth and require_admin\<close>

definition require_auth :: "handler \<Rightarrow> handler" where
  "require_auth func u w =
     (let user_id = effective_user_id u
      in if (case auth w of None \<Rightarrow> True | Some a \<Rightarrow> \<not> is_user_allowed a user_id) then
           bind_io (reply_text u (Unauthorized user_id))
             (\<lambda>_ w1. (Inr (),
                log_fields WARNING ''Unauthorized access attempt''
                  [(''user_id'', str_int user_id)] w1)) w
         else func u w)"

definition require_admin :: "handler \<Rightarrow> handler" where
  "require_admin func u w =
     (let user_id = effective_user_id u
      in if (case auth w of None \<Rightarrow> True | Some a \<Rightarrow> \<not> is_user_admin a user_id) then
           bind_io (reply_text u AdminRequired)
             (\<lambda>_ w1. (Inr (),
                log_fields WARNING ''Non-admin attempted admin command''
                  [(''user_id'', str_int user_id)] w1)) w
         else func u w)"

subsection \<open>Text messages (src/handlers/messages.py)\<close>



definition lower_char :: "char \<Rightarrow> char" where
  "lower_char c =
     (let n = (of_char c :: nat)
      in if (65 \<le> n \<and> n \<le> 90) \<or> (192 \<le> n \<and> n \<le> 222 \<and> n \<noteq> 215)
         then char_of (n + 32) else c)"

definition lower :: "string \<Rightarrow> string" where
  "lower s = map lower_char s"



text \<open>\<open>"error" in result\<close>\<close>

definition has_key :: "pydict \<Rightarrow> string \<Rightarrow> bool" where
  "has_key d k = (map_of d k \<noteq> None)"





subsection \<open>File uploads (src/handlers/files.py)\<close>

text \<open>
  \<open>os.path.splitext(filename)[1]\<close>: the extension starts at the last dot of the last path
  component, provided a character other than a dot stands before it in that component;
  otherwise there is none.
\<close>

definition splitext_ext :: "string \<Rightarrow> string" where
  "splitext_ext p =
     (let base = rev (takeWhile (\<lambda>c. c \<noteq> CHR ''/'') (rev p))
      in if CHR ''.'' \<notin> set base then []
         else
           (let ext = rev (takeWhile (\<lambda>c. c \<noteq> CHR ''.'') (rev base));
                stem = take (length base - length ext - 1) base
            in if \<exists>c \<in> set stem. c \<noteq> CHR ''.'' then CHR ''.'' # ext else []))"

definition get_file_extension :: "string option \<Rightarrow> string" where
  "get_file_extension filename =
     (case filename of
        None \<Rightarrow> []
      | Some f \<Rightarrow> if f = [] then [] else lower (splitext_ext f))"

definition supported_extensions :: "string list" where
  "supported_extensions =
     [''.pdf'', ''.doc'', ''.docx'', ''.txt'', ''.rtf'',
      ''.jpg'', ''.jpeg'', ''.png'', ''.gif'', ''.bmp'',
      ''.mp3'', ''.wav'', ''.ogg'', ''.m4a'',
      ''.csv'', ''.xlsx'', ''.xls'',
      ''.md'', ''.html'', ''.xml'', ''.json'']"

definition is_supported_file_type :: "string option \<Rightarrow> bool" where
  "is_supported_file_type filename =
     (case filename of
        None \<Rightarrow> False
      | Some f \<Rightarrow> if f = [] then False
                  else get_file_extension filename \<in> set supported_extensions)"

text \<open>
  The file of a message and the name it is uploaded under: a document, else the last
  (largest) photo, else a voice note, else an audio file. Generated names carry the
  reading of the clock (the \<open>strftime\<close> rendering is not modelled).
\<close>

definition select_file :: "world \<Rightarrow> message \<Rightarrow> (file_obj \<times> string option) option" where
  "select_file w m =
     (case document m of
        Some f \<Rightarrow> Some (f, file_name f)
      | None \<Rightarrow>
          if photo m \<noteq> [] then
            Some (last (photo m), Some (''image_'' @ str_nat (clock w) @ ''.jpg''))
          else
            (case voice m of
               Some f \<Rightarrow> Some (f, Some (''voice_'' @ str_nat (clock w) @ ''.ogg''))
             | None \<Rightarrow>
                 (case audio m of
                    Some f \<Rightarrow>
                      Some (f, Some (case file_name f of
                                       None \<Rightarrow> ''audio_'' @ str_nat (clock w) @ ''.mp3''
                                     | Some n \<Rightarrow> if n \<noteq> [] then n
                                                 else ''audio_'' @ str_nat (clock w) @ ''.mp3''))
                  | None \<Rightarrow> None)))"

text \<open>
  \<open>file_size_mb > settings.max_file_size_mb\<close> with
  \<open>file_size_mb = file_size / (1024 * 1024) if file_size else 0\<close>: dividing by a power of
  two is exact, so the comparison is the integer one.
\<close>

definition too_large :: "world \<Rightarrow> file_obj \<Rightarrow> bool" where
  "too_large w f =
     (int (case file_size f of None \<Rightarrow> 0 | Some n \<Rightarrow> n) >
        max_file_size_mb (config w) * 1048576)"

definition opt_str :: "string option \<Rightarrow> json" where
  "opt_str s = (case s of None \<Rightarrow> JNull | Some x \<Rightarrow> JStr x)"

text \<open>
  The metadata sent with the upload. The size in megabytes (a float), the dimensions of a
  photo and the duration of a recording are not modelled.
\<close>

definition upload_metadata :: "world \<Rightarrow> update \<Rightarrow> message \<Rightarrow> file_obj \<Rightarrow> string option \<Rightarrow> pydict" where
  "upload_metadata w u m f filename =
     [(''original_filename'', opt_str filename),
      (''file_size'', case file_size f of None \<Rightarrow> JNull | Some n \<Rightarrow> JInt (int n)),
      (''upload_date'', JStr (utcnow_isoformat w)),
      (''user_id'', JInt (effective_user_id u)),
      (''telegram_file_id'', JStr (file_id f)),
      (''mime_type'', opt_str (mime_type f)),
      (''file_extension'', JStr (get_file_extension filename)),
      (''supported'', JBool (is_supported_file_type filename))] @
     (case caption m of
        None \<Rightarrow> []
      | Some c \<Rightarrow> if c \<noteq> [] then [(''caption'', JStr c), (''has_caption'', JBool True)] else [])"

text \<open>
  The body of the \<open>try\<close> block after the first status message \<open>processing_msg\<close> has been
  sent: two status edits, the upload, and on success the success text, the job record
  written into the user's session state when the payload has a \<open>job_id\<close>, and the quick
  actions; on failure the failure text.
\<close>

definition upload_attempt ::
  "update \<Rightarrow> message \<Rightarrow> file_obj \<Rightarrow> string \<Rightarrow> nat \<Rightarrow> unit io" where
  "upload_attempt u m f filename processing_msg w =
     (let user_id = effective_user_id u; chat = effective_chat_id u;
          w1 = send (EditText processing_msg (Uploading filename ''Uploading to backend...'')) w;
          metadata = upload_metadata w1 u m f (Some filename);
          w2 = send (EditText processing_msg
                 (Uploading filename ''Processing and indexing...'')) w1;
          (result, w3) = upload_file w2 user_id (file_bytes f) filename metadata
      in if result \<noteq> [] \<and> \<not> has_key result ''error'' then
           (let job_id = dict_get result ''job_id'';
                document_id = dict_get result ''document_id'';
                w4 = send (EditText processing_msg (UploadSuccess filename document_id job_id)) w3
            in bind_io
                 (if truthy job_id then
                    (\<lambda>w. update_state w user_id
                       [(''last_upload_job'', job_id),
                        (''last_upload_file'', JStr filename),
                        (''last_upload_document_id'', document_id)])
                  else return_io ())
                 (\<lambda>_ w5. (Inr (), send (SendMessage chat (QuickActions job_id)) w5)) w4)
         else
           (Inr (),
            send (EditText processing_msg
                    (UploadFailed filename
                       (if result \<noteq> [] then dict_get result ''error''
                        else JStr ''Upload failed''))) w3))"

text \<open>
  \<open>handle_file_upload\<close>: the function under the decorator. Whatever the \<open>try\<close> block did,
  and whether it raised or not, the \<open>finally\<close> clause runs \<open>clear_state\<close> for the user
  before the handler returns.
\<close>

definition handle_file_upload_body :: handler where
  "handle_file_upload_body u w =
     (let user_id = effective_user_id u
      in bind_io (\<lambda>w. get_flow w user_id) (\<lambda>current_flow w0.
           if current_flow \<noteq> JStr ''upload_file'' then
             bind_io (reply_text u UseUploadFirst) (\<lambda>_. return_io ()) w0
           else
             (case message u of
                None \<Rightarrow> (Inl AttributeError, w0)
              | Some m \<Rightarrow>
                  (case select_file w0 m of
                     None \<Rightarrow> bind_io (reply_text u UnsupportedFileType) (\<lambda>_. return_io ()) w0
                   | Some (f, filename) \<Rightarrow>
                       if too_large w0 f then
                         bind_io
                           (reply_text u
                              (FileTooLarge (max_file_size_mb (config w0))
                                 (case file_size f of None \<Rightarrow> 0 | Some n \<Rightarrow> n)))
                           (\<lambda>_. return_io ()) w0
                       else if \<not> is_supported_file_type filename then
                         bind_io (reply_text u (UnsupportedExtension filename))
                           (\<lambda>_. return_io ()) w0
                       else
                         (let name = (case filename of None \<Rightarrow> [] | Some n \<Rightarrow> n);
                              processing_msg = length (outbox w0);
                              w1 = send (ReplyText (effective_chat_id u)
                                     (Uploading name ''Downloading from Telegram...'')) w0;
                              after_try =
                                (case upload_attempt u m f name processing_msg w1 of
                                   (Inr _, w2) \<Rightarrow> w2
                                 | (Inl e, w2) \<Rightarrow>
                                     send (EditText processing_msg (UploadError name))
                                       (log_fields ERROR ''File upload error''
                                          [(''user_id'', str_int user_id), (''filename'', name)]
                                          w2))
                          in clear_state after_try user_id)))) w)"

definition handle_file_upload :: handler where
  "handle_file_upload = require_auth handle_file_upload_body"

subsection \<open>Job completion callbacks (src/server.py)\<close>

record job_callback =
  cb_job_id :: string
  cb_status :: string
  cb_result :: "pydict option"
  cb_error :: "string option"

text \<open>
  The text \<open>process_job_callback\<close> builds for a callback, by status. It is assigned to a
  local variable and used by nothing.
\<close>

datatype job_text =
    JobCompleted string bool
  | JobFailed string "string option"
  | JobStatusUpdate string string

definition job_message :: "job_callback \<Rightarrow> job_text" where
  "job_message cb =
     (if cb_status cb = ''completed'' then
        JobCompleted (cb_job_id cb)
          (case cb_result cb of None \<Rightarrow> False | Some r \<Rightarrow> r \<noteq> [])
      else if cb_status cb = ''failed'' then
        JobFailed (cb_job_id cb)
          (case cb_error cb of None \<Rightarrow> None | Some e \<Rightarrow> if e \<noteq> [] then Some e else None)
      else JobStatusUpdate (cb_job_id cb) (cb_status cb))"

text \<open>
  \<open>process_job_callback\<close>: the fields are read, the text is built, and one log line is
  written. No user is looked up and nothing is handed to the chat transport.
\<close>

definition process_job_callback :: "job_callback \<Rightarrow> world \<Rightarrow> world" where
  "process_job_callback cb w =
     (let msg = job_message cb
      in log_fields INFO ''Job callback processed''
           [(''job_id'', cb_job_id cb), (''status'', cb_status cb)] w)"

subsection \<open>Worlds and updates for exercising the handlers\<close>


definition button_update :: "int \<Rightarrow> string \<Rightarrow> update" where
  "button_update user_id payload =
     \<lparr> effective_user_id = user_id, effective_chat_id = user_id,
       message = None, callback_query = Some \<lparr> query_data = payload \<rparr> \<rparr>"

definition document_file :: "string \<Rightarrow> nat \<Rightarrow> file_obj" where
  "document_file name nbytes =
     \<lparr> file_id = ''f1'', file_name = Some name, file_size = Some nbytes, mime_type = None,
       file_bytes = ''%PDF'' \<rparr>"

definition document_message :: "string \<Rightarrow> nat \<Rightarrow> message" where
  "document_message name nbytes =
     \<lparr> message_text = None, document = Some (document_file name nbytes), photo = [],
       voice = None, audio = None, caption = None \<rparr>"

definition document_update :: "int \<Rightarrow> string \<Rightarrow> nat \<Rightarrow> update" where
  "document_update user_id name nbytes =
     \<lparr> effective_user_id = user_id, effective_chat_id = user_id,
       message = Some (document_message name nbytes), callback_query = None \<rparr>"

text \<open>
  The store of \<open>world0\<close>, connected, holding for user 123 a session with the given flow
  that expires at instant 2800.
\<close>

definition world_in_flow :: "string \<Rightarrow> world" where
  "world_in_flow flow =
     world0\<lparr>storage_connected := True,
            redis_entries := [get_key 123 \<mapsto>
              ([(''current_flow'', JStr flow), (''updated_at'', JStr ''1000'')], Some 2800)]\<rparr>"

text \<open>
  The same with user 123 in the upload flow and a backend that accepts every upload and
  answers with a job identifier, as the test suite's backend does.
\<close>

definition world_uploading :: world where
  "world_uploading =
     (world_in_flow ''upload_file'')
       \<lparr>backend := (\<lambda>r. Responded 200 []
          (Inr [(''job_id'', JStr ''test_job_123''), (''document_id'', JStr ''doc_456'')]))\<rparr>"

subsection \<open>Facts about the authorization gate\<close>

lemma allow_all_init:
  "allow_all_users (AuthManager_init cfg) = (get_allowed_user_ids cfg = [])"
  by (simp add: AuthManager_init_def)

lemma apply_auth_op_allow_all:
  "allow_all_users (apply_auth_op a x) = allow_all_users a"
  by (cases x) (simp_all add: add_user_def remove_user_def)

lemma run_auth_ops_allow_all:
  "allow_all_users (run_auth_ops ops a) = allow_all_users a"
  unfolding run_auth_ops_def
  by (induction ops arbitrary: a) (simp_all add: apply_auth_op_allow_all)

lemma apply_auth_op_admins:
  "admin_users (apply_auth_op a x) = admin_users a"
  by (cases x) (simp_all add: add_user_def remove_user_def)

text \<open>
  C4, as the claim states it, fails on the code where the allow-list is empty without the
  gate being in allow-all mode. A gate constructed with allow-list \<open>[456]\<close> and admins
  \<open>[123]\<close> is not in allow-all mode; \<open>remove_user(456)\<close> succeeds and leaves the
  allow-list empty, the flag stays false, and nobody is allowed: not the removed user,
  not a stranger, not the admin.
\<close>

theorem is_user_allowed_counterexample:
  "fst (remove_user (AuthManager_init cfg_closed) 456) = True \<and>
   allowed_users (snd (remove_user (AuthManager_init cfg_closed) 456)) = {} \<and>
   allow_all_users (snd (remove_user (AuthManager_init cfg_closed) 456)) = False \<and>
   is_user_allowed (snd (remove_user (AuthManager_init cfg_closed) 456)) 456 = False \<and>
   is_user_allowed (snd (remove_user (AuthManager_init cfg_closed) 456)) 789 = False \<and>
   is_user_allowed (snd (remove_user (AuthManager_init cfg_closed) 456)) 123 = False"
  by (simp add: remove_user_def is_user_allowed_def AuthManager_init_def cfg_closed_def)

text \<open>
  C4, amended. Every identifier in the allow-list is allowed; whenever the gate is in
  allow-all mode, that is, its flag is set, every identifier whatsoever is allowed; and
  the flag is set by construction exactly when the configured allow-list is empty, so a
  gate constructed from an empty configured allow-list allows every identifier. (An
  allow-list that becomes empty later does not put the gate in allow-all mode.)
\<close>

theorem is_user_allowed_spec:
  "(u \<in> allowed_users a \<longrightarrow> is_user_allowed a u) \<and>
   (allow_all_users a \<longrightarrow> is_user_allowed a v) \<and>
   is_user_allowed a u = (allow_all_users a \<or> u \<in> allowed_users a) \<and>
   allow_all_users (AuthManager_init cfg) = (get_allowed_user_ids cfg = []) \<and>
   (get_allowed_user_ids cfg = [] \<longrightarrow> is_user_allowed (AuthManager_init cfg) v)"
  by (simp add: is_user_allowed_def AuthManager_init_def)

theorem is_user_allowed_spec_witness:
  "456 \<in> allowed_users (AuthManager_init cfg_two_users) \<and>
   is_user_allowed (AuthManager_init cfg_two_users) 456 \<and>
   allow_all_users (AuthManager_init cfg_open) \<and>
   get_allowed_user_ids cfg_open = [] \<and>
   is_user_allowed (AuthManager_init cfg_open) 789"
  using is_user_allowed_spec [of 456 "AuthManager_init cfg_two_users" 789 cfg_open]
    is_user_allowed_spec [of 456 "AuthManager_init cfg_open" 789 cfg_open]
  by (simp add: AuthManager_init_def cfg_two_users_def cfg_open_def)

text \<open>
  C5. \<open>remove_user\<close> returns false and leaves the gate (so the allow-list) unchanged when
  the identifier is absent from the allow-list or is an admin; otherwise it returns true
  and the allow-list loses exactly that identifier, the admin set and the flag being
  kept. In particular an admin is never removed and the allow-list does not shrink.
\<close>

theorem remove_user_spec:
  "(u \<notin> allowed_users a \<or> u \<in> admin_users a \<longrightarrow> remove_user a u = (False, a)) \<and>
   (u \<in> allowed_users a \<and> u \<notin> admin_users a \<longrightarrow>
      fst (remove_user a u) = True \<and>
      allowed_users (snd (remove_user a u)) = allowed_users a - {u} \<and>
      u \<notin> allowed_users (snd (remove_user a u)) \<and>
      admin_users (snd (remove_user a u)) = admin_users a \<and>
      allow_all_users (snd (remove_user a u)) = allow_all_users a) \<and>
   (u \<in> admin_users a \<longrightarrow>
      fst (remove_user a u) = False \<and>
      allowed_users (snd (remove_user a u)) = allowed_users a)"
  by (simp add: remove_user_def)

theorem remove_user_spec_witness:
  "123 \<in> admin_users (AuthManager_init cfg_two_users) \<and>
   remove_user (AuthManager_init cfg_two_users) 123 = (False, AuthManager_init cfg_two_users) \<and>
   789 \<notin> allowed_users (AuthManager_init cfg_two_users) \<and>
   remove_user (AuthManager_init cfg_two_users) 789 = (False, AuthManager_init cfg_two_users) \<and>
   456 \<in> allowed_users (AuthManager_init cfg_two_users) \<and>
   456 \<notin> admin_users (AuthManager_init cfg_two_users) \<and>
   fst (remove_user (AuthManager_init cfg_two_users) 456) = True \<and>
   allowed_users (snd (remove_user (AuthManager_init cfg_two_users) 456)) = {123}"
  using remove_user_spec [of 123 "AuthManager_init cfg_two_users"]
    remove_user_spec [of 789 "AuthManager_init cfg_two_users"]
    remove_user_spec [of 456 "AuthManager_init cfg_two_users"]
  by (auto simp add: AuthManager_init_def cfg_two_users_def)

text \<open>
  C10. The allow-all flag is fixed at construction as "the configured allow-list is
  empty", and no sequence of \<open>add_user\<close> and \<open>remove_user\<close> calls changes it. So a gate
  that started with an empty allow-list allows every identifier after any such sequence,
  even when the list is no longer empty; and a gate that started with a non-empty list
  is never in allow-all mode afterwards, so once its list has been emptied it allows
  nobody.
\<close>

theorem allow_all_fixed_at_construction:
  "allow_all_users (run_auth_ops ops (AuthManager_init cfg)) = (get_allowed_user_ids cfg = []) \<and>
   (get_allowed_user_ids cfg = [] \<longrightarrow>
      is_user_allowed (run_auth_ops ops (AuthManager_init cfg)) u) \<and>
   (get_allowed_user_ids cfg \<noteq> [] \<longrightarrow>
      \<not> allow_all_users (run_auth_ops ops (AuthManager_init cfg)) \<and>
      (allowed_users (run_auth_ops ops (AuthManager_init cfg)) = {} \<longrightarrow>
         \<not> is_user_allowed (run_auth_ops ops (AuthManager_init cfg)) u))"
  by (simp add: run_auth_ops_allow_all allow_all_init is_user_allowed_def)

theorem allow_all_fixed_at_construction_witness:
  "get_allowed_user_ids cfg_open = [] \<and>
   allowed_users (run_auth_ops [AddUser 5] (AuthManager_init cfg_open)) = {5} \<and>
   is_user_allowed (run_auth_ops [AddUser 5] (AuthManager_init cfg_open)) 789 \<and>
   get_allowed_user_ids cfg_one_user \<noteq> [] \<and>
   allowed_users (run_auth_ops [RemoveUser 456] (AuthManager_init
     cfg_one_user)) = {} \<and>
   \<not> is_user_allowed (run_auth_ops [RemoveUser 456] (AuthManager_init
     cfg_one_user)) 456"
  using allow_all_fixed_at_construction [of "[AddUser 5]" cfg_open 789]
    allow_all_fixed_at_construction [of "[RemoveUser 456]"
      cfg_one_user 456]
  by (simp add: run_auth_ops_def add_user_def remove_user_def AuthManager_init_def cfg_open_def
      cfg_one_user_def)


subsection \<open>Facts about the decimal rendering of integers\<close>

lemma nat_of_digits_str_nat: "nat_of_digits (str_nat n) = n"
proof (induction n rule: str_nat.induct)
  case (1 n)
  show ?case
  proof (cases "n < 10")
    case True
    then show ?thesis
      by (subst str_nat.simps) (simp add: nat_of_digits_def of_char_of)
  next
    case False
    have m: "of_char (char_of (48 + n mod 10) :: char) - 48 = n mod 10"
      by (simp add: of_char_of)
    from False 1 have ih: "nat_of_digits (str_nat (n div 10)) = n div 10" by simp
    have "nat_of_digits (str_nat n) =
        10 * nat_of_digits (str_nat (n div 10)) +
          (of_char (char_of (48 + n mod 10) :: char) - 48)"
      using False by (subst str_nat.simps) (simp add: nat_of_digits_def)
    also have "\<dots> = 10 * (n div 10) + n mod 10"
      using ih m by simp
    finally show ?thesis by simp
  qed
qed

lemma str_nat_inj: "str_nat m = str_nat n \<Longrightarrow> m = n"
  by (metis nat_of_digits_str_nat)

lemma str_nat_no_minus: "str_nat n \<noteq> [] \<and> CHR ''-'' \<notin> set (str_nat n)"
proof (induction n rule: str_nat.induct)
  case (1 n)
  have d: "char_of (48 + k) \<noteq> CHR ''-''" if "k < 10" for k :: nat
  proof
    assume "char_of (48 + k) = CHR ''-''"
    then have "of_char (char_of (48 + k) :: char) = (of_char CHR ''-'' :: nat)" by simp
    with that show False by (simp add: of_char_of)
  qed
  show ?case
  proof (cases "n < 10")
    case True
    with d [of n] show ?thesis
      by (subst (1 2) str_nat.simps) (simp add: eq_commute)
  next
    case False
    have "n mod 10 < 10" by simp
    from d [OF this] False 1 show ?thesis
      by (subst (1 2) str_nat.simps) (simp add: eq_commute)
  qed
qed

lemma str_nat_hd: "hd (str_nat n) \<noteq> CHR ''-''"
  using str_nat_no_minus [of n] by (cases "str_nat n") auto

lemma int_of_str_str_int: "int_of_str (str_int i) = i"
proof (cases "i < 0")
  case True
  then show ?thesis
    by (simp add: int_of_str_def str_int_def nat_of_digits_str_nat)
next
  case False
  obtain c ds where s: "str_nat (nat i) = c # ds"
    using str_nat_no_minus [of "nat i"] by (cases "str_nat (nat i)") auto
  with str_nat_hd [of "nat i"] have "c \<noteq> CHR ''-''" by simp
  with False s nat_of_digits_str_nat [of "nat i"] show ?thesis
    by (simp add: int_of_str_def str_int_def)
qed

lemma str_int_inj: "str_int i = str_int j \<Longrightarrow> i = j"
  by (metis int_of_str_str_int)


subsection \<open>Facts about the session store\<close>

lemma connect_when_reachable:
  "redis_reachable w \<Longrightarrow>
     fst (connect w) = Inr () \<and> redis_reachable (snd (connect w)) \<and>
     storage_connected (snd (connect w)) \<and>
     redis_entries (snd (connect w)) = redis_entries w \<and>
     clock (snd (connect w)) = clock w \<and> config (snd (connect w)) = config w"
  by (simp add: connect_def redis_ping_def log_line_def log_fields_def)

lemma connect_when_connected: "storage_connected w \<Longrightarrow> connect w = (Inr (), w)"
  by (simp add: connect_def)

lemma set_state_entries:
  assumes "0 < session_timeout_minutes (config w)" and "redis_reachable w"
  shows "fst (set_state w uid st) = Inr () \<and>
     redis_entries (snd (set_state w uid st)) =
       (redis_entries w)(get_key uid \<mapsto>
          (stamp_updated_at w st, Some (clock w + nat (default_ttl w)))) \<and>
     redis_reachable (snd (set_state w uid st)) \<and>
     config (snd (set_state w uid st)) = config w \<and>
     clock (snd (set_state w uid st)) = clock w"
  using assms
  by (simp add: set_state_def RedisStateStorage_set_def connect_def redis_ping_def log_line_def log_fields_def
      redis_setex_def default_ttl_def split: prod.splits sum.splits)

lemma get_state_reads:
  assumes "redis_reachable w"
  shows "fst (get_state w uid) =
     Inr (case redis_live (clock w) (redis_entries w (get_key uid)) of
            None \<Rightarrow> [] | Some d \<Rightarrow> d)"
  using assms
  by (auto simp add: get_state_def RedisStateStorage_get_def connect_def redis_ping_def
      log_line_def log_fields_def redis_get_def split: prod.splits sum.splits option.splits)

lemma get_state_after_set_state:
  assumes "0 < session_timeout_minutes (config w)" and "redis_reachable w"
  shows "fst (get_state (at_time (snd (set_state w uid st)) now) uid) =
     Inr (if now < clock w + nat (default_ttl w) then stamp_updated_at w st else [])"
proof -
  let ?w1 = "snd (set_state w uid st)"
  have e: "redis_entries ?w1 (get_key uid) =
      Some (stamp_updated_at w st, Some (clock w + nat (default_ttl w)))"
    and r: "redis_reachable ?w1"
    using set_state_entries [OF assms, of uid st] by simp_all
  have "redis_reachable (at_time ?w1 now)"
    using r by (simp add: at_time_def)
  from get_state_reads [OF this, of uid] show ?thesis
    using e by (simp add: at_time_def redis_live_def)
qed

lemma stamp_updated_at_reads:
  "dict_get (stamp_updated_at w st) ''updated_at'' = JStr (utcnow_isoformat w)"
  by (simp add: stamp_updated_at_def dict_get_def update_conv')

lemma set_state_positive_timeout:
  assumes "0 < session_timeout_minutes (config w)" and "redis_reachable w"
  shows "fst (set_state w uid st) = Inr () \<and>
     redis_entries (snd (set_state w uid st)) (get_key uid) =
       Some (stamp_updated_at w st, Some (clock w + nat (default_ttl w))) \<and>
     (\<forall>now. clock w \<le> now \<and> now < clock w + nat (default_ttl w) \<longrightarrow>
        fst (get_state (at_time (snd (set_state w uid st)) now) uid) =
          Inr (stamp_updated_at w st)) \<and>
     (\<forall>now. clock w + nat (default_ttl w) \<le> now \<longrightarrow>
        fst (get_state (at_time (snd (set_state w uid st)) now) uid) = Inr []) \<and>
     (\<forall>c2 st2 now. clock w \<le> c2 \<and> c2 \<le> now \<longrightarrow>
        fst (get_state
              (at_time (snd (set_state (at_time (snd (set_state w uid st)) c2) uid st2)) now)
              uid) =
          Inr (if now < c2 + nat (default_ttl w)
               then stamp_updated_at (at_time (snd (set_state w uid st)) c2) st2 else []))"
proof -
  let ?w1 = "snd (set_state w uid st)"
  note first = set_state_entries [OF assms, of uid st]
  have second: "fst (get_state (at_time (snd (set_state (at_time ?w1 c2) uid st2)) now) uid) =
      Inr (if now < c2 + nat (default_ttl w)
           then stamp_updated_at (at_time ?w1 c2) st2 else [])" for c2 st2 now
  proof -
    have "0 < session_timeout_minutes (config (at_time ?w1 c2))"
      and "redis_reachable (at_time ?w1 c2)"
      using first assms by (simp_all add: at_time_def)
    from get_state_after_set_state [OF this, of uid st2 now] show ?thesis
      using first by (simp add: at_time_def default_ttl_def)
  qed
  show ?thesis
    using first get_state_after_set_state [OF assms, of uid st] second
    by simp
qed

lemma stamp_updated_at_nonempty: "stamp_updated_at w st \<noteq> []"
  by (cases st) (simp_all add: stamp_updated_at_def)

lemma set_state_zero_timeout:
  assumes "session_timeout_minutes (config w) = 0" and "redis_reachable w"
  shows "fst (set_state w uid st) = Inr () \<and>
     redis_entries (snd (set_state w uid st)) (get_key uid) =
       Some (stamp_updated_at w st, None) \<and>
     (\<forall>now. fst (get_state (at_time (snd (set_state w uid st)) now) uid) =
        Inr (stamp_updated_at w st))"
proof -
  let ?w1 = "snd (set_state w uid st)"
  have w1: "fst (set_state w uid st) = Inr ()"
    "redis_entries ?w1 (get_key uid) = Some (stamp_updated_at w st, None)"
    "redis_reachable ?w1"
    using assms
    by (simp_all add: set_state_def RedisStateStorage_set_def connect_def redis_ping_def
        log_line_def log_fields_def redis_set_def default_ttl_def)
  have "fst (get_state (at_time ?w1 now) uid) = Inr (stamp_updated_at w st)" for now
  proof -
    have "redis_reachable (at_time ?w1 now)" using w1(3) by (simp add: at_time_def)
    from get_state_reads [OF this, of uid] w1(2) show ?thesis
      by (simp add: at_time_def redis_live_def)
  qed
  with w1 show ?thesis by simp
qed

lemma set_state_negative_timeout:
  assumes "session_timeout_minutes (config w) < 0" and "redis_reachable w"
  shows "fst (set_state w uid st) = Inr () \<and>
     redis_entries (snd (set_state w uid st)) = redis_entries w"
  using assms
  by (simp add: set_state_def RedisStateStorage_set_def connect_def redis_ping_def
      log_line_def log_fields_def redis_setex_def default_ttl_def)

text \<open>
  C6, as the claim states it, fails on the code when the configured session timeout is
  0 minutes, a value the configuration accepts. \<open>set_state\<close> then passes a time-to-live of
  0, the \<open>if ttl:\<close> of \<open>RedisStateStorage.set\<close> takes the branch without expiry, and the
  entry is stored for good: it is still returned a million seconds later, although the
  configured time-to-live has long elapsed.
\<close>

theorem set_state_sliding_ttl_counterexample:
  "session_timeout_minutes (config world_no_timeout) = 0 \<and>
   default_ttl world_no_timeout = 0 \<and>
   clock world_no_timeout = 1000 \<and>
   redis_entries (snd (set_state world_no_timeout 42 [(''current_flow'', JStr ''upload_file'')]))
     (get_key 42) =
     Some (stamp_updated_at world_no_timeout [(''current_flow'', JStr ''upload_file'')], None) \<and>
   fst (get_state
         (at_time (snd (set_state world_no_timeout 42
                          [(''current_flow'', JStr ''upload_file'')])) 1001000) 42) =
     Inr (stamp_updated_at world_no_timeout [(''current_flow'', JStr ''upload_file'')]) \<and>
   stamp_updated_at world_no_timeout [(''current_flow'', JStr ''upload_file'')] \<noteq> []"
proof -
  have h: "session_timeout_minutes (config world_no_timeout) = 0"
    "redis_reachable world_no_timeout"
    and c: "clock world_no_timeout = 1000" "default_ttl world_no_timeout = 0"
    by (simp_all add: world_no_timeout_def world0_def default_ttl_def)
  show ?thesis
    using h(1) c set_state_zero_timeout [OF h, of 42 "[(''current_flow'', JStr ''upload_file'')]"]
      stamp_updated_at_nonempty
    by simp
qed

text \<open>
  C6, amended. With the store answering, every \<open>set_state\<close> returns normally and stamps
  \<open>updated_at\<close> with the instant of the write. When the configured session timeout is
  positive, the write installs the whole configured time-to-live \<open>t\<close> counted from that
  instant, whatever entry and expiry were there before (the time-to-live slides with each
  write): \<open>get_state\<close> returns the stored map at every instant before \<open>t\<close> has elapsed
  since the write and the empty map from then on, and after a second write at a later
  instant \<open>c2\<close> the entry is readable until \<open>t\<close> has elapsed since \<open>c2\<close>. When the
  configured timeout is 0, the entry is written without expiry and \<open>get_state\<close> returns
  the stored map at every later instant. When it is negative, the store refuses the write
  and the entries stay as they were.
\<close>

theorem set_state_sliding_ttl:
  assumes "redis_reachable w"
  shows "fst (set_state w uid st) = Inr () \<and>
     dict_get (stamp_updated_at w st) ''updated_at'' = JStr (utcnow_isoformat w) \<and>
     default_ttl w = session_timeout_minutes (config w) * 60 \<and>
     (0 < session_timeout_minutes (config w) \<longrightarrow>
        redis_entries (snd (set_state w uid st)) (get_key uid) =
          Some (stamp_updated_at w st, Some (clock w + nat (default_ttl w))) \<and>
        (\<forall>now. clock w \<le> now \<and> now < clock w + nat (default_ttl w) \<longrightarrow>
           fst (get_state (at_time (snd (set_state w uid st)) now) uid) =
             Inr (stamp_updated_at w st)) \<and>
        (\<forall>now. clock w + nat (default_ttl w) \<le> now \<longrightarrow>
           fst (get_state (at_time (snd (set_state w uid st)) now) uid) = Inr []) \<and>
        (\<forall>c2 st2 now. clock w \<le> c2 \<and> c2 \<le> now \<longrightarrow>
           fst (get_state
                 (at_time (snd (set_state (at_time (snd (set_state w uid st)) c2) uid st2)) now)
                 uid) =
             Inr (if now < c2 + nat (default_ttl w)
                  then stamp_updated_at (at_time (snd (set_state w uid st)) c2) st2 else []))) \<and>
     (session_timeout_minutes (config w) = 0 \<longrightarrow>
        redis_entries (snd (set_state w uid st)) (get_key uid) =
          Some (stamp_updated_at w st, None) \<and>
        (\<forall>now. fst (get_state (at_time (snd (set_state w uid st)) now) uid) =
           Inr (stamp_updated_at w st))) \<and>
     (session_timeout_minutes (config w) < 0 \<longrightarrow>
        redis_entries (snd (set_state w uid st)) = redis_entries w)"
proof -
  have r: "fst (set_state w uid st) = Inr ()"
    using set_state_positive_timeout [OF _ assms, of uid st]
      set_state_zero_timeout [OF _ assms, of uid st]
      set_state_negative_timeout [OF _ assms, of uid st]
    by (cases "session_timeout_minutes (config w)" "0 :: int" rule: linorder_cases) simp_all
  have p: "0 < session_timeout_minutes (config w) \<longrightarrow>
        redis_entries (snd (set_state w uid st)) (get_key uid) =
          Some (stamp_updated_at w st, Some (clock w + nat (default_ttl w))) \<and>
        (\<forall>now. clock w \<le> now \<and> now < clock w + nat (default_ttl w) \<longrightarrow>
           fst (get_state (at_time (snd (set_state w uid st)) now) uid) =
             Inr (stamp_updated_at w st)) \<and>
        (\<forall>now. clock w + nat (default_ttl w) \<le> now \<longrightarrow>
           fst (get_state (at_time (snd (set_state w uid st)) now) uid) = Inr []) \<and>
        (\<forall>c2 st2 now. clock w \<le> c2 \<and> c2 \<le> now \<longrightarrow>
           fst (get_state
                 (at_time (snd (set_state (at_time (snd (set_state w uid st)) c2) uid st2)) now)
                 uid) =
             Inr (if now < c2 + nat (default_ttl w)
                  then stamp_updated_at (at_time (snd (set_state w uid st)) c2) st2 else []))"
    using set_state_positive_timeout [OF _ assms, of uid st] by blast
  have z: "session_timeout_minutes (config w) = 0 \<longrightarrow>
        redis_entries (snd (set_state w uid st)) (get_key uid) =
          Some (stamp_updated_at w st, None) \<and>
        (\<forall>now. fst (get_state (at_time (snd (set_state w uid st)) now) uid) =
           Inr (stamp_updated_at w st))"
    using set_state_zero_timeout [OF _ assms, of uid st] by blast
  have n: "session_timeout_minutes (config w) < 0 \<longrightarrow>
        redis_entries (snd (set_state w uid st)) = redis_entries w"
    using set_state_negative_timeout [OF _ assms, of uid st] by blast
  from r p z n show ?thesis
    by (simp only: stamp_updated_at_reads default_ttl_def simp_thms)
qed

theorem set_state_sliding_ttl_witness:
  "redis_reachable world0 \<and> 0 < session_timeout_minutes (config world0) \<and>
   default_ttl world0 = 1800 \<and> clock world0 = 1000 \<and>
   fst (set_state world0 42 [(''current_flow'', JStr ''upload_file'')]) = Inr () \<and>
   fst (get_state
         (at_time (snd (set_state world0 42 [(''current_flow'', JStr ''upload_file'')])) 2799)
         42) =
     Inr (stamp_updated_at world0 [(''current_flow'', JStr ''upload_file'')]) \<and>
   fst (get_state
         (at_time (snd (set_state world0 42 [(''current_flow'', JStr ''upload_file'')])) 2800)
         42) = Inr [] \<and>
   fst (get_state
         (at_time (snd (set_state
            (at_time (snd (set_state world0 42 [(''current_flow'', JStr ''upload_file'')])) 2000)
            42 [(''current_flow'', JStr ''refine_search'')])) 3799)
         42) =
     Inr (stamp_updated_at
            (at_time (snd (set_state world0 42 [(''current_flow'', JStr ''upload_file'')])) 2000)
            [(''current_flow'', JStr ''refine_search'')]) \<and>
   redis_reachable world_no_timeout \<and> session_timeout_minutes (config world_no_timeout) = 0 \<and>
   fst (get_state
         (at_time (snd (set_state world_no_timeout 42
                          [(''current_flow'', JStr ''upload_file'')])) 2800) 42) =
     Inr (stamp_updated_at world_no_timeout [(''current_flow'', JStr ''upload_file'')])"
proof -
  have h1: "0 < session_timeout_minutes (config world0)"
    and h2: "redis_reachable world0"
    and t: "default_ttl world0 = 1800" and c: "clock world0 = 1000"
    by (simp_all add: world0_def cfg_two_users_def default_ttl_def)
  have z1: "session_timeout_minutes (config world_no_timeout) = 0"
    and z2: "redis_reachable world_no_timeout"
    by (simp_all add: world_no_timeout_def world0_def)
  note th = set_state_sliding_ttl [OF h2, of 42 "[(''current_flow'', JStr ''upload_file'')]"]
  note tz = set_state_sliding_ttl [OF z2, of 42 "[(''current_flow'', JStr ''upload_file'')]"]
  have a: "fst (get_state
         (at_time (snd (set_state world0 42 [(''current_flow'', JStr ''upload_file'')])) 2799)
         42) = Inr (stamp_updated_at world0 [(''current_flow'', JStr ''upload_file'')])"
    using th h1 t c by simp
  have b: "fst (get_state
         (at_time (snd (set_state world0 42 [(''current_flow'', JStr ''upload_file'')])) 2800)
         42) = Inr []"
    using th h1 t c by simp
  have d: "fst (get_state
         (at_time (snd (set_state
            (at_time (snd (set_state world0 42 [(''current_flow'', JStr ''upload_file'')])) 2000)
            42 [(''current_flow'', JStr ''refine_search'')])) 3799)
         42) =
     Inr (stamp_updated_at
            (at_time (snd (set_state world0 42 [(''current_flow'', JStr ''upload_file'')])) 2000)
            [(''current_flow'', JStr ''refine_search'')])"
    using th h1 t c by simp
  have e: "fst (get_state
         (at_time (snd (set_state world_no_timeout 42
                          [(''current_flow'', JStr ''upload_file'')])) 2800) 42) =
     Inr (stamp_updated_at world_no_timeout [(''current_flow'', JStr ''upload_file'')])"
    using tz z1 by simp
  have f: "fst (set_state world0 42 [(''current_flow'', JStr ''upload_file'')]) = Inr ()"
    using th by simp
  from h1 h2 t c z1 z2 a b d e f show ?thesis by (simp only: simp_thms)
qed

lemma store_failure_swallowed_once_connected:
  assumes "storage_connected w" and "\<not> redis_reachable w"
  shows "RedisStateStorage_get w key = (Inr None, log_line ERROR ''Redis get error'' w)"
    and "RedisStateStorage_set w key data ttl = (Inr (), log_line ERROR ''Redis set error'' w)"
    and "RedisStateStorage_delete w key = (Inr (), log_line ERROR ''Redis delete error'' w)"
  using assms
  by (simp_all add: RedisStateStorage_get_def RedisStateStorage_set_def
      RedisStateStorage_delete_def connect_def redis_get_def redis_setex_def redis_set_def
      redis_delete_def split: option.splits)

lemma store_failure_propagates_from_connect:
  assumes "\<not> storage_connected w" and "\<not> redis_reachable w"
  shows "RedisStateStorage_get w key = (Inl ConnectionError, w)"
    and "RedisStateStorage_set w key data ttl = (Inl ConnectionError, w)"
    and "RedisStateStorage_delete w key = (Inl ConnectionError, w)"
  using assms
  by (simp_all add: RedisStateStorage_get_def RedisStateStorage_set_def
      RedisStateStorage_delete_def connect_def redis_ping_def)

lemma store_failure_swallowed_example:
  "fst (get_state world_lost 42) = Inr [] \<and>
   fst (set_state world_lost 42 st) = Inr () \<and>
   redis_entries (snd (set_state world_lost 42 st)) = redis_entries world_lost \<and>
   logged (snd (set_state world_lost 42 st)) = [(ERROR, ''Redis set error'', [])]"
proof -
  have h: "storage_connected world_lost" "\<not> redis_reachable world_lost"
    by (simp_all add: world_lost_def world0_def)
  show ?thesis
    using store_failure_swallowed_once_connected [OF h]
    by (simp add: get_state_def set_state_def log_line_def log_fields_def world_lost_def
        world0_def)
qed

text \<open>
  C7. The claim fails on the code where the storage object has not connected yet: the
  \<open>await self.connect()\<close> of \<open>get\<close> and \<open>set\<close> stands before their \<open>try\<close>, so with the
  server not answering the ping's exception leaves \<open>get\<close> and \<open>set\<close>, nothing is logged by
  them, and the exception reaches the caller: \<open>get_state\<close>, \<open>get_flow\<close> and \<open>set_state\<close>
  raise as well.
\<close>

theorem store_failure_before_connect_propagates:
  "RedisStateStorage_get world_down (get_key 42) = (Inl ConnectionError, world_down) \<and>
   RedisStateStorage_set world_down (get_key 42) [(''current_flow'', JStr ''upload_file'')]
     (Some 1800) = (Inl ConnectionError, world_down) \<and>
   get_state world_down 42 = (Inl ConnectionError, world_down) \<and>
   get_flow world_down 42 = (Inl ConnectionError, world_down) \<and>
   set_state world_down 42 [(''current_flow'', JStr ''upload_file'')] =
     (Inl ConnectionError, world_down) \<and>
   logged world_down = []"
proof -
  have h: "\<not> storage_connected world_down" "\<not> redis_reachable world_down"
    by (simp_all add: world_down_def world0_def)
  show ?thesis
    using store_failure_propagates_from_connect [OF h]
    by (simp add: get_state_def get_flow_def set_state_def world_down_def world0_def)
qed


subsection \<open>Facts about backend tokens\<close>

text \<open>
  C9. For every user, expiry window, signing function and pair of instants: a token
  issued at \<open>now\<close> for \<open>m\<close> minutes and verified at an instant not past its expiry yields
  the claims that were signed, whose subject is \<open>str(u)\<close> and reads back as \<open>u\<close>; the same
  token with any other signature yields \<open>None\<close>; and verified at an instant past its
  expiry it yields \<open>None\<close>. A rejection is \<open>None\<close>: no claims at all.
\<close>

theorem token_roundtrip_and_rejection:
  "(now' \<le> now + 60 * m \<longrightarrow>
      verify_backend_token mac a now' (create_backend_token mac a now u m) =
        Some [(''sub'', JStr (str_int u)), (''exp'', JInt (now + 60 * m)),
              (''iat'', JInt now), (''type'', JStr ''bot_user'')] \<and>
      (\<forall>p. verify_backend_token mac a now' (create_backend_token mac a now u m) = Some p \<longrightarrow>
         dict_get p ''sub'' = JStr (str_int u) \<and> subject_user_id p = u)) \<and>
   (s \<noteq> signature_of (create_backend_token mac a now u m) \<longrightarrow>
      verify_backend_token mac a now'
        (with_signature (create_backend_token mac a now u m) s) = None) \<and>
   (now + 60 * m < now' \<longrightarrow>
      verify_backend_token mac a now' (create_backend_token mac a now u m) = None)"
  by (auto simp add: verify_backend_token_def create_backend_token_def jwt_encode_def
      jwt_decode_def dict_get_def subject_user_id_def int_of_str_str_int Let_def)

theorem token_roundtrip_and_rejection_witness:
  "(1059 :: int) \<le> 1000 + 60 * 1 \<and>
   verify_backend_token toy_mac (AuthManager_init cfg_two_users) 1059
     (create_backend_token toy_mac (AuthManager_init cfg_two_users) 1000 123 1) =
     Some [(''sub'', JStr ''123''), (''exp'', JInt 1060), (''iat'', JInt 1000),
           (''type'', JStr ''bot_user'')] \<and>
   subject_user_id [(''sub'', JStr ''123''), (''exp'', JInt 1060), (''iat'', JInt 1000),
           (''type'', JStr ''bot_user'')] = 123 \<and>
   ''forged'' \<noteq> signature_of
     (create_backend_token toy_mac (AuthManager_init cfg_two_users) 1000 123 1) \<and>
   verify_backend_token toy_mac (AuthManager_init cfg_two_users) 1059
     (with_signature
        (create_backend_token toy_mac (AuthManager_init cfg_two_users) 1000 123 1)
        ''forged'') = None \<and>
   (1000 :: int) + 60 * 1 < 1061 \<and>
   verify_backend_token toy_mac (AuthManager_init cfg_two_users) 1061
     (create_backend_token toy_mac (AuthManager_init cfg_two_users) 1000 123 1) = None"
proof -
  have s: "str_int 123 = ''123''"
    by code_simp
  have f: "''forged'' \<noteq> signature_of
     (create_backend_token toy_mac (AuthManager_init cfg_two_users) 1000 123 1)"
    by (simp add: create_backend_token_def jwt_encode_def toy_mac_def AuthManager_init_def
        cfg_two_users_def Let_def)
  show ?thesis
    using f s
      token_roundtrip_and_rejection
        [of 1059 1000 1 toy_mac "AuthManager_init cfg_two_users" 123 "''forged''"]
      token_roundtrip_and_rejection
        [of 1061 1000 1 toy_mac "AuthManager_init cfg_two_users" 123 "''forged''"]
    by simp
qed


subsection \<open>Facts about the backend client\<close>

lemma http_error_inj: "http_error s = http_error s' \<Longrightarrow> s = s'"
  by (simp add: http_error_def error_dict_def str_int_inj)

lemma make_request_issues_one_request:
  "requests (snd (make_request w method endpoint user_id data params files)) =
     requests w @ [request_of method endpoint user_id data params files]"
  by (simp add: make_request_def Let_def log_fields_def log_line_def
      split: http_outcome.splits sum.splits)

lemma make_request_frame:
  "auth (snd (make_request w method endpoint user_id data params files)) = auth w \<and>
   config (snd (make_request w method endpoint user_id data params files)) = config w \<and>
   storage_connected (snd (make_request w method endpoint user_id data params files)) =
     storage_connected w \<and>
   redis_reachable (snd (make_request w method endpoint user_id data params files)) =
     redis_reachable w \<and>
   redis_entries (snd (make_request w method endpoint user_id data params files)) =
     redis_entries w \<and>
   clock (snd (make_request w method endpoint user_id data params files)) = clock w \<and>
   backend (snd (make_request w method endpoint user_id data params files)) = backend w \<and>
   outbox (snd (make_request w method endpoint user_id data params files)) = outbox w"
  by (simp add: make_request_def Let_def log_fields_def log_line_def
      split: http_outcome.splits sum.splits)

lemma world_backend_backend: "backend (world_backend out) r = out"
  by (simp add: world_backend_def world0_def)

text \<open>
  C3, as the claim states it, fails on the code at two places. A response with status 200
  whose body does not parse is no success: \<open>response.json()\<close> raises inside the \<open>try\<close>
  and the catch-all returns the transport-error failure. And the failure returned for
  another status does not carry the raw body: two responses with status 500 and
  different bodies give the same returned value (the body goes to the log only).
\<close>

theorem make_request_classification_counterexample:
  "fst (make_request (world_backend (Responded 200 ''<html>'' (Inl ''Expecting value'')))
          ''GET'' ''/api/sources'' 42 None None None) = transport_error ''Expecting value'' \<and>
   fst (make_request (world_backend (Responded 500 ''disk full'' (Inl ''Expecting value'')))
          ''GET'' ''/api/sources'' 42 None None None) =
   fst (make_request (world_backend (Responded 500 ''out of memory'' (Inl ''Expecting value'')))
          ''GET'' ''/api/sources'' 42 None None None) \<and>
   ''disk full'' \<noteq> ''out of memory''"
  by (simp add: make_request_def world_backend_def world0_def Let_def)

text \<open>
  C3, amended. For every request, \<open>_make_request\<close> issues exactly one request and
  classifies what the transport gives back: status 200 with a body that parses yields the
  parsed body (a 200 whose body does not parse yields the transport-error failure with the
  decoder's message); 401 yields \<open>auth_failed\<close>; 404 yields \<open>not_found\<close>; a timeout yields
  \<open>timeout\<close>; any other status yields \<open>http_error\<close> of that status, which determines the
  status code, while the raw body is written to the error log line and is not part of the
  returned failure; any other exception yields \<open>transport_error\<close> with its message.
\<close>

theorem make_request_classification:
  "(backend w (request_of method endpoint user_id data params files) =
        Responded 200 raw (Inr v) \<longrightarrow>
      fst (make_request w method endpoint user_id data params files) = v) \<and>
   (backend w (request_of method endpoint user_id data params files) =
        Responded 200 raw (Inl msg) \<longrightarrow>
      fst (make_request w method endpoint user_id data params files) = transport_error msg) \<and>
   (backend w (request_of method endpoint user_id data params files) =
        Responded 401 raw parsed \<longrightarrow>
      fst (make_request w method endpoint user_id data params files) = auth_failed) \<and>
   (backend w (request_of method endpoint user_id data params files) =
        Responded 404 raw parsed \<longrightarrow>
      fst (make_request w method endpoint user_id data params files) = not_found) \<and>
   (backend w (request_of method endpoint user_id data params files) = TimeoutException \<longrightarrow>
      fst (make_request w method endpoint user_id data params files) = timeout) \<and>
   (backend w (request_of method endpoint user_id data params files) =
        Responded status raw parsed \<and> status \<noteq> 200 \<and> status \<noteq> 401 \<and> status \<noteq> 404 \<longrightarrow>
      fst (make_request w method endpoint user_id data params files) = http_error status \<and>
      (\<forall>status'. http_error status' = http_error status \<longrightarrow> status' = status) \<and>
      logged (snd (make_request w method endpoint user_id data params files)) =
        logged w @
          [(INFO, ''Backend request'', [(''endpoint'', endpoint), (''status'', str_int status)]),
           (ERROR, ''Backend request failed'',
              [(''status'', str_int status), (''response'', raw)])]) \<and>
   (backend w (request_of method endpoint user_id data params files) = OtherException msg \<longrightarrow>
      fst (make_request w method endpoint user_id data params files) = transport_error msg) \<and>
   requests (snd (make_request w method endpoint user_id data params files)) =
     requests w @ [request_of method endpoint user_id data params files]"
  using http_error_inj make_request_issues_one_request
  by (auto simp add: make_request_def Let_def log_fields_def log_line_def)

theorem make_request_classification_witness:
  "fst (make_request (world_backend (Responded 200 ''{}'' (Inr [])))
          ''GET'' ''/test'' 123 None None None) = [] \<and>
   fst (make_request (world_backend (Responded 200 ''<html>'' (Inl ''Expecting value'')))
          ''GET'' ''/test'' 123 None None None) = transport_error ''Expecting value'' \<and>
   fst (make_request (world_backend (Responded 401 [] (Inl [])))
          ''GET'' ''/test'' 123 None None None) = auth_failed \<and>
   fst (make_request (world_backend (Responded 404 [] (Inl [])))
          ''GET'' ''/test'' 123 None None None) = not_found \<and>
   fst (make_request (world_backend TimeoutException)
          ''GET'' ''/test'' 123 None None None) = timeout \<and>
   fst (make_request (world_backend (Responded 500 ''disk full'' (Inl [])))
          ''GET'' ''/test'' 123 None None None) = http_error 500 \<and>
   fst (make_request (world_backend (OtherException ''connection refused''))
          ''GET'' ''/test'' 123 None None None) = transport_error ''connection refused''"
proof -
  have a: "fst (make_request (world_backend (Responded 200 ''{}'' (Inr [])))
          ''GET'' ''/test'' 123 None None None) = []"
    using make_request_classification [of "world_backend (Responded 200 ''{}'' (Inr []))"
          "''GET''" "''/test''" 123 None None None "''{}''" "[]"]
    by (simp only: world_backend_backend simp_thms)
  have b: "fst (make_request (world_backend (Responded 200 ''<html>'' (Inl ''Expecting value'')))
          ''GET'' ''/test'' 123 None None None) = transport_error ''Expecting value''"
    using make_request_classification [of "world_backend (Responded 200 ''<html>''
          (Inl ''Expecting value''))" "''GET''" "''/test''" 123 None None None
          "''<html>''" _ "''Expecting value''"]
    by (simp only: world_backend_backend simp_thms)
  have c: "fst (make_request (world_backend (Responded 401 [] (Inl [])))
          ''GET'' ''/test'' 123 None None None) = auth_failed"
    using make_request_classification [of "world_backend (Responded 401 [] (Inl []))"
          "''GET''" "''/test''" 123 None None None "[]" _ _ "Inl []"]
    by (simp only: world_backend_backend simp_thms)
  have d: "fst (make_request (world_backend (Responded 404 [] (Inl [])))
          ''GET'' ''/test'' 123 None None None) = not_found"
    using make_request_classification [of "world_backend (Responded 404 [] (Inl []))"
          "''GET''" "''/test''" 123 None None None "[]" _ _ "Inl []"]
    by (simp only: world_backend_backend simp_thms)
  have e: "fst (make_request (world_backend TimeoutException)
          ''GET'' ''/test'' 123 None None None) = timeout"
    using make_request_classification [of "world_backend TimeoutException"
          "''GET''" "''/test''" 123 None None None]
    by (simp only: world_backend_backend simp_thms)
  have f: "fst (make_request (world_backend (Responded 500 ''disk full'' (Inl [])))
          ''GET'' ''/test'' 123 None None None) = http_error 500"
    using make_request_classification [of "world_backend (Responded 500 ''disk full'' (Inl []))"
          "''GET''" "''/test''" 123 None None None "''disk full''" _ _ "Inl []" 500]
    by (simp add: world_backend_backend)
  have g: "fst (make_request (world_backend (OtherException ''connection refused''))
          ''GET'' ''/test'' 123 None None None) = transport_error ''connection refused''"
    using make_request_classification [of "world_backend (OtherException ''connection refused'')"
          "''GET''" "''/test''" 123 None None None _ _ "''connection refused''"]
    by (simp only: world_backend_backend simp_thms)
  from a b c d e f g show ?thesis by (simp only: simp_thms)
qed


subsection \<open>Facts about the handlers\<close>

lemma RedisStateStorage_get_frame:
  assumes "RedisStateStorage_get w key = (r, w1)"
  shows "requests w1 = requests w \<and> outbox w1 = outbox w \<and> redis_entries w1 = redis_entries w \<and>
     redis_reachable w1 = redis_reachable w \<and> clock w1 = clock w \<and> auth w1 = auth w \<and>
     config w1 = config w \<and> backend w1 = backend w \<and>
     (\<forall>x. r = Inr x \<longrightarrow> storage_connected w1)"
  using assms
  by (auto simp add: RedisStateStorage_get_def connect_def redis_ping_def log_line_def
      log_fields_def redis_get_def split: if_splits sum.splits option.splits prod.splits)

lemma get_flow_frame:
  assumes "get_flow w uid = (r, w1)"
  shows "requests w1 = requests w \<and> outbox w1 = outbox w \<and> redis_entries w1 = redis_entries w \<and>
     redis_reachable w1 = redis_reachable w \<and> clock w1 = clock w \<and> auth w1 = auth w \<and>
     config w1 = config w \<and> backend w1 = backend w \<and>
     (\<forall>x. r = Inr x \<longrightarrow> storage_connected w1)"
proof -
  obtain r0 w0 where g: "RedisStateStorage_get w (get_key uid) = (r0, w0)"
    by (cases "RedisStateStorage_get w (get_key uid)")
  from assms g have "w1 = w0" and "\<forall>x. r = Inr x \<longrightarrow> (\<exists>y. r0 = Inr y)"
    by (auto simp add: get_flow_def get_state_def split: sum.splits option.splits)
  with RedisStateStorage_get_frame [OF g] show ?thesis by auto
qed

lemma clear_state_connected:
  assumes "storage_connected w"
  shows "fst (clear_state w uid) = Inr () \<and>
     requests (snd (clear_state w uid)) = requests w \<and>
     outbox (snd (clear_state w uid)) = outbox w \<and>
     redis_reachable (snd (clear_state w uid)) = redis_reachable w \<and>
     clock (snd (clear_state w uid)) = clock w \<and>
     (redis_reachable w \<longrightarrow>
        redis_entries (snd (clear_state w uid)) = (redis_entries w)(get_key uid := None))"
  using assms
  by (simp add: clear_state_def RedisStateStorage_delete_def connect_def redis_delete_def
      log_line_def log_fields_def)





lemma require_auth_allowed:
  "auth w = Some a \<Longrightarrow> is_user_allowed a (effective_user_id u) \<Longrightarrow> require_auth h u w = h u w"
  by (simp add: require_auth_def)

lemma require_auth_rejects_message_update:
  assumes "case auth w of None \<Rightarrow> True | Some a \<Rightarrow> \<not> is_user_allowed a (effective_user_id u)"
    and "message u = Some m"
  shows "require_auth h u w =
     (Inr (),
      w\<lparr>outbox := outbox w @ [ReplyText (effective_chat_id u) (Unauthorized (effective_user_id u))],
        logged := logged w @ [(WARNING, ''Unauthorized access attempt'',
                               [(''user_id'', str_int (effective_user_id u))])]\<rparr>)"
  using assms
  by (simp add: require_auth_def Let_def bind_io_def reply_text_def send_def log_fields_def)

lemma require_auth_raises_without_message:
  assumes "case auth w of None \<Rightarrow> True | Some a \<Rightarrow> \<not> is_user_allowed a (effective_user_id u)"
    and "message u = None"
  shows "require_auth h u w = (Inl AttributeError, w)"
  using assms by (simp add: require_auth_def Let_def bind_io_def reply_text_def)

text \<open>
  C1. The claim holds for an update that carries a message (lemma
  \<open>require_auth_rejects_message_update\<close>), and fails for a button press. The bot
  registers \<open>button_callback\<close>, wrapped by \<open>require_auth\<close>, for callback queries; such an
  update has no \<open>message\<close>, so for a user outside the allow-list the guard's
  \<open>update.message.reply_text\<close> raises an attribute error: no rejection message is sent, no
  warning is logged, and the exception leaves the guard. The wrapped handler is not
  invoked and the world is unchanged.
\<close>

theorem require_auth_button_press_raises:
  "auth world0 = Some (AuthManager_init cfg_two_users) \<and>
   \<not> allow_all_users (AuthManager_init cfg_two_users) \<and>
   999 \<notin> allowed_users (AuthManager_init cfg_two_users) \<and>
   require_auth h (button_update 999 ''upload_file'') world0 = (Inl AttributeError, world0) \<and>
   outbox (snd (require_auth h (button_update 999 ''upload_file'') world0)) = []"
  by (simp add: require_auth_def Let_def bind_io_def reply_text_def button_update_def world0_def
      is_user_allowed_def AuthManager_init_def cfg_two_users_def)




















subsection \<open>Facts about uploads and job callbacks\<close>

lemma process_job_callback_sends_nothing:
  "outbox (process_job_callback cb w) = outbox w \<and>
   redis_entries (process_job_callback cb w) = redis_entries w \<and>
   requests (process_job_callback cb w) = requests w"
  by (simp add: process_job_callback_def Let_def log_fields_def)

lemma get_state_connected:
  assumes "storage_connected w"
  shows "get_state w uid =
     (Inr (if redis_reachable w
           then (case redis_live (clock w) (redis_entries w (get_key uid)) of
                   None \<Rightarrow> [] | Some d \<Rightarrow> d)
           else []),
      if redis_reachable w then w else log_line ERROR ''Redis get error'' w)"
  using assms
  by (auto simp add: get_state_def RedisStateStorage_get_def connect_def redis_get_def
      split: option.splits)

lemma set_state_connected:
  assumes "storage_connected w"
  shows "fst (set_state w uid st) = Inr () \<and>
     storage_connected (snd (set_state w uid st)) \<and>
     redis_reachable (snd (set_state w uid st)) = redis_reachable w \<and>
     clock (snd (set_state w uid st)) = clock w \<and>
     outbox (snd (set_state w uid st)) = outbox w \<and>
     requests (snd (set_state w uid st)) = requests w \<and>
     (redis_reachable w \<and> 0 < session_timeout_minutes (config w) \<longrightarrow>
        redis_entries (snd (set_state w uid st)) (get_key uid) =
          Some (stamp_updated_at w st, Some (clock w + nat (default_ttl w))))"
  using assms
  by (simp add: set_state_def RedisStateStorage_set_def connect_def redis_setex_def
      redis_set_def default_ttl_def log_line_def log_fields_def)

lemma update_state_connected:
  assumes "storage_connected w"
  shows "fst (update_state w uid upd) = Inr () \<and>
     storage_connected (snd (update_state w uid upd)) \<and>
     redis_reachable (snd (update_state w uid upd)) = redis_reachable w \<and>
     clock (snd (update_state w uid upd)) = clock w \<and>
     outbox (snd (update_state w uid upd)) = outbox w \<and>
     requests (snd (update_state w uid upd)) = requests w \<and>
     (redis_reachable w \<and> 0 < session_timeout_minutes (config w) \<longrightarrow>
        (\<exists>st. redis_entries (snd (update_state w uid upd)) (get_key uid) =
           Some (stamp_updated_at w (dict_update st upd), Some (clock w + nat (default_ttl w)))))"
proof (cases "redis_reachable w")
  case True
  with assms show ?thesis
    using set_state_connected [OF assms, of uid]
    by (auto simp add: update_state_def get_state_connected)
next
  case False
  have c: "storage_connected (log_line ERROR ''Redis get error'' w)"
    using assms by (simp add: log_line_def log_fields_def)
  from False assms show ?thesis
    using set_state_connected [OF c, of uid]
    by (simp add: update_state_def get_state_connected log_line_def log_fields_def)
qed


lemma upload_file_frame:
  assumes "upload_file w uid data name md = (r, w1)"
  shows "storage_connected w1 = storage_connected w \<and> redis_reachable w1 = redis_reachable w \<and>
     redis_entries w1 = redis_entries w \<and> clock w1 = clock w \<and> config w1 = config w \<and>
     outbox w1 = outbox w \<and>
     requests w1 = requests w @
       [request_of ''POST'' ''/api/upload'' uid
          (Some [(''user_id'', JInt uid), (''metadata'', JObj md)]) None (Some (name, data))]"
proof -
  have "w1 = snd (upload_file w uid data name md)" using assms by simp
  then show ?thesis
    using make_request_frame make_request_issues_one_request by (simp add: upload_file_def)
qed

lemma upload_file_success:
  assumes "\<forall>r. backend w r = Responded 200 raw (Inr payload)"
  shows "fst (upload_file w uid data name md) = payload"
  using assms by (simp add: upload_file_def make_request_def Let_def)

lemma store_job_connected:
  assumes "storage_connected w"
  shows "\<exists>w'. (if truthy j then (\<lambda>w. update_state w uid upd) else return_io ()) w = (Inr (), w') \<and>
     storage_connected w' \<and> redis_reachable w' = redis_reachable w \<and> clock w' = clock w \<and>
     outbox w' = outbox w \<and> requests w' = requests w"
proof (cases "truthy j")
  case True
  obtain r' w' where e: "update_state w uid upd = (r', w')"
    by (cases "update_state w uid upd")
  with update_state_connected [OF assms, of uid upd] have "r' = Inr ()"
    and "storage_connected w' \<and> redis_reachable w' = redis_reachable w \<and> clock w' = clock w \<and>
     outbox w' = outbox w \<and> requests w' = requests w"
    by simp_all
  with True e show ?thesis by simp
next
  case False
  with assms show ?thesis by (simp add: return_io_def)
qed

lemma upload_attempt_connected:
  assumes "storage_connected w"
  shows "fst (upload_attempt u m f name pm w) = Inr () \<and>
     storage_connected (snd (upload_attempt u m f name pm w)) \<and>
     redis_reachable (snd (upload_attempt u m f name pm w)) = redis_reachable w \<and>
     clock (snd (upload_attempt u m f name pm w)) = clock w"
proof -
  let ?w1 = "send (EditText pm (Uploading name ''Uploading to backend...'')) w"
  let ?w2 = "send (EditText pm (Uploading name ''Processing and indexing...'')) ?w1"
  obtain r w3 where up: "upload_file ?w2 (effective_user_id u) (file_bytes f) name
      (upload_metadata ?w1 u m f (Some name)) = (r, w3)"
    by (cases "upload_file ?w2 (effective_user_id u) (file_bytes f) name
      (upload_metadata ?w1 u m f (Some name))")
  from upload_file_frame [OF up] assms
  have w3: "storage_connected w3" "redis_reachable w3 = redis_reachable w" "clock w3 = clock w"
    by (simp_all add: send_def)
  show ?thesis
  proof (cases "r \<noteq> [] \<and> \<not> has_key r ''error''")
    case True
    let ?w4 = "send (EditText pm (UploadSuccess name (dict_get r ''document_id'')
        (dict_get r ''job_id''))) w3"
    have c4: "storage_connected ?w4" using w3 by (simp add: send_def)
    from store_job_connected [OF c4, of "dict_get r ''job_id''" "effective_user_id u"
        "[(''last_upload_job'', dict_get r ''job_id''), (''last_upload_file'', JStr name),
          (''last_upload_document_id'', dict_get r ''document_id'')]"]
    obtain w5 where w5: "(if truthy (dict_get r ''job_id'')
          then (\<lambda>w. update_state w (effective_user_id u)
             [(''last_upload_job'', dict_get r ''job_id''), (''last_upload_file'', JStr name),
              (''last_upload_document_id'', dict_get r ''document_id'')])
          else return_io ()) ?w4 = (Inr (), w5)"
      and f5: "storage_connected w5" "redis_reachable w5 = redis_reachable ?w4"
        "clock w5 = clock ?w4"
      by blast
    have "upload_attempt u m f name pm w =
        (Inr (), send (SendMessage (effective_chat_id u) (QuickActions (dict_get r ''job_id''))) w5)"
      using True up w5 by (simp add: upload_attempt_def Let_def bind_io_def)
    with f5 w3 show ?thesis by (simp add: send_def)
  next
    case False
    then have "upload_attempt u m f name pm w =
        (Inr (), send (EditText pm (UploadFailed name
            (if r \<noteq> [] then dict_get r ''error'' else JStr ''Upload failed''))) w3)"
      using up by (cases "r = []") (simp_all add: upload_attempt_def Let_def)
    with w3 show ?thesis by (simp add: send_def)
  qed
qed


lemma job_record_readable:
  "dict_get (stamp_updated_at w (dict_update st
       [(''last_upload_job'', j), (''last_upload_file'', f), (''last_upload_document_id'', d)]))
     ''last_upload_job'' = j"
  by (simp add: stamp_updated_at_def dict_update_def dict_get_def update_conv')

lemma upload_attempt_records_job:
  assumes c: "storage_connected w" and r: "redis_reachable w"
    and t: "0 < session_timeout_minutes (config w)"
    and b: "\<forall>q. backend w q = Responded 200 raw (Inr payload)"
    and p: "payload \<noteq> []" "\<not> has_key payload ''error''" "truthy (dict_get payload ''job_id'')"
  shows "\<exists>st e. redis_entries (snd (upload_attempt u m f name pm w))
             (get_key (effective_user_id u)) = Some (st, e) \<and>
           dict_get st ''last_upload_job'' = dict_get payload ''job_id''"
proof -
  let ?uid = "effective_user_id u"
  let ?w1 = "send (EditText pm (Uploading name ''Uploading to backend...'')) w"
  let ?w2 = "send (EditText pm (Uploading name ''Processing and indexing...'')) ?w1"
  let ?md = "upload_metadata ?w1 u m f (Some name)"
  let ?upd = "[(''last_upload_job'', dict_get payload ''job_id''), (''last_upload_file'', JStr name),
      (''last_upload_document_id'', dict_get payload ''document_id'')]"
  have b2: "\<forall>q. backend ?w2 q = Responded 200 raw (Inr payload)"
    using b by (simp add: send_def)
  obtain r3 w3 where up: "upload_file ?w2 ?uid (file_bytes f) name ?md = (r3, w3)"
    by (cases "upload_file ?w2 ?uid (file_bytes f) name ?md")
  with upload_file_success [OF b2, of ?uid "file_bytes f" name ?md]
  have r3: "r3 = payload" by simp
  from upload_file_frame [OF up] c r t
  have w3: "storage_connected w3" "redis_reachable w3" "0 < session_timeout_minutes (config w3)"
    by (simp_all add: send_def)
  let ?w4 = "send (EditText pm (UploadSuccess name (dict_get payload ''document_id'')
      (dict_get payload ''job_id''))) w3"
  have w4: "storage_connected ?w4" "redis_reachable ?w4 \<and> 0 < session_timeout_minutes (config ?w4)"
    using w3 by (simp_all add: send_def)
  obtain r5 w5 where us: "update_state ?w4 ?uid ?upd = (r5, w5)"
    by (cases "update_state ?w4 ?uid ?upd")
  from update_state_connected [OF w4(1), of ?uid ?upd] w4(2) us
  obtain st where r5: "r5 = Inr ()"
    and e5: "redis_entries w5 (get_key ?uid) =
      Some (stamp_updated_at ?w4 (dict_update st ?upd), Some (clock ?w4 + nat (default_ttl ?w4)))"
    by auto
  have "upload_attempt u m f name pm w =
      (Inr (), send (SendMessage (effective_chat_id u) (QuickActions (dict_get payload ''job_id''))) w5)"
    using up r3 p us r5 by (simp add: upload_attempt_def Let_def bind_io_def)
  then have "redis_entries (snd (upload_attempt u m f name pm w)) (get_key ?uid) =
      Some (stamp_updated_at ?w4 (dict_update st ?upd), Some (clock ?w4 + nat (default_ttl ?w4)))"
    using e5 by (simp add: send_def)
  with job_record_readable show ?thesis by blast
qed

lemma handle_file_upload_body_ends_with_clear_state:
  assumes g: "get_flow w (effective_user_id u) = (Inr (JStr ''upload_file''), w0)"
    and m: "message u = Some m"
    and f: "select_file w0 m = Some (f, Some name)"
    and s: "\<not> too_large w0 f" "is_supported_file_type (Some name)"
  shows "handle_file_upload_body u w =
       clear_state
         (snd (upload_attempt u m f name (length (outbox w0))
                 (send (ReplyText (effective_chat_id u)
                          (Uploading name ''Downloading from Telegram...'')) w0)))
         (effective_user_id u)"
    and "fst (handle_file_upload_body u w) = Inr ()"
    and "redis_reachable w \<Longrightarrow>
       redis_entries (snd (handle_file_upload_body u w)) (get_key (effective_user_id u)) = None"
    and "redis_reachable w \<Longrightarrow>
       fst (get_state (snd (handle_file_upload_body u w)) (effective_user_id u)) = Inr []"
proof -
  let ?uid = "effective_user_id u"
  let ?w1 = "send (ReplyText (effective_chat_id u)
      (Uploading name ''Downloading from Telegram...'')) w0"
  let ?at = "upload_attempt u m f name (length (outbox w0)) ?w1"
  note fr = get_flow_frame [OF g]
  then have c1: "storage_connected ?w1" by (simp add: send_def)
  note ua = upload_attempt_connected [OF c1, of u m f name "length (outbox w0)"]
  obtain r2 w2 where at: "?at = (r2, w2)" by (cases ?at)
  with ua have r2: "r2 = Inr ()" and c2: "storage_connected w2"
    and rr: "redis_reachable w2 = redis_reachable w"
    using fr by (simp_all add: send_def)
  show eq: "handle_file_upload_body u w = clear_state (snd ?at) ?uid"
    using g m f s at r2
    by (simp add: handle_file_upload_body_def Let_def bind_io_def)
  note cl = clear_state_connected [OF c2, of ?uid]
  show "fst (handle_file_upload_body u w) = Inr ()"
    using eq at cl by simp
  show e: "redis_entries (snd (handle_file_upload_body u w)) (get_key ?uid) = None"
    if "redis_reachable w"
    using eq at cl rr that by simp
  show "fst (get_state (snd (handle_file_upload_body u w)) ?uid) = Inr []"
    if "redis_reachable w"
  proof -
    have "redis_reachable (snd (handle_file_upload_body u w))"
      using eq at cl rr that by simp
    from get_state_reads [OF this, of ?uid] e [OF that] show ?thesis
      by (simp add: redis_live_def)
  qed
qed


lemma report_pdf_supported: "is_supported_file_type (Some ''report.pdf'')"
  by code_simp

lemma get_flow_world_uploading:
  "get_flow world_uploading 123 = (Inr (JStr ''upload_file''), world_uploading)"
  by (simp add: get_flow_def get_state_def RedisStateStorage_get_def connect_def redis_get_def
      redis_live_def world_uploading_def world_in_flow_def world0_def dict_get_def)

lemma world_uploading_facts:
  "auth world_uploading = Some (AuthManager_init cfg_two_users)"
  "is_user_allowed (AuthManager_init cfg_two_users) 123"
  "storage_connected world_uploading" "redis_reachable world_uploading"
  "0 < session_timeout_minutes (config world_uploading)"
  "max_file_size_mb (config world_uploading) = 50"
  "outbox world_uploading = []"
  "\<forall>q. backend world_uploading q = Responded 200 []
     (Inr [(''job_id'', JStr ''test_job_123''), (''document_id'', JStr ''doc_456'')])"
  by (simp_all add: world_uploading_def world_in_flow_def world0_def is_user_allowed_def
      AuthManager_init_def cfg_two_users_def)

text \<open>
  C2. The claim fails on the code. User 123 is in the upload flow and sends a document;
  the backend accepts the upload and its payload carries \<open>job_id = "test_job_123"\<close>. The
  handler does write the job into the user's session state (\<open>last_upload_job\<close>, inside the
  \<open>try\<close> block), but its \<open>finally\<close> clause then runs \<open>clear_state\<close>: when the handler
  returns, the user's state is gone and no association from the job to the user exists
  anywhere. A completion signal for that job is then processed without looking anyone up
  and without handing anything to the chat transport: nobody is notified.
\<close>

theorem upload_job_record_lost:
  "fst (handle_file_upload (document_update 123 ''report.pdf'' 1000) world_uploading) = Inr () \<and>
   (\<exists>st e.
      redis_entries
        (snd (upload_attempt (document_update 123 ''report.pdf'' 1000)
                (document_message ''report.pdf'' 1000) (document_file ''report.pdf'' 1000)
                ''report.pdf'' 0
                (send (ReplyText 123 (Uploading ''report.pdf'' ''Downloading from Telegram...''))
                   world_uploading)))
        (get_key 123) = Some (st, e) \<and>
      dict_get st ''last_upload_job'' = JStr ''test_job_123'') \<and>
   handle_file_upload (document_update 123 ''report.pdf'' 1000) world_uploading =
     clear_state
       (snd (upload_attempt (document_update 123 ''report.pdf'' 1000)
                (document_message ''report.pdf'' 1000) (document_file ''report.pdf'' 1000)
                ''report.pdf'' 0
                (send (ReplyText 123 (Uploading ''report.pdf'' ''Downloading from Telegram...''))
                   world_uploading)))
       123 \<and>
   redis_entries (snd (handle_file_upload (document_update 123 ''report.pdf'' 1000)
                         world_uploading)) (get_key 123) = None \<and>
   fst (get_state (snd (handle_file_upload (document_update 123 ''report.pdf'' 1000)
                          world_uploading)) 123) = Inr [] \<and>
   outbox (process_job_callback
             \<lparr> cb_job_id = ''test_job_123'', cb_status = ''completed'',
               cb_result = None, cb_error = None \<rparr>
             (snd (handle_file_upload (document_update 123 ''report.pdf'' 1000)
                     world_uploading))) =
     outbox (snd (handle_file_upload (document_update 123 ''report.pdf'' 1000) world_uploading))"
proof -
  let ?u = "document_update 123 ''report.pdf'' 1000"
  let ?f = "document_file ''report.pdf'' 1000"
  let ?m = "document_message ''report.pdf'' 1000"
  let ?w1 = "send (ReplyText 123 (Uploading ''report.pdf'' ''Downloading from Telegram...''))
      world_uploading"
  have u: "effective_user_id ?u = 123" "effective_chat_id ?u = 123" "message ?u = Some ?m"
    by (simp_all add: document_update_def)
  have body: "handle_file_upload ?u world_uploading = handle_file_upload_body ?u world_uploading"
    using world_uploading_facts(1,2) by (simp add: handle_file_upload_def require_auth_allowed u)
  have g: "get_flow world_uploading (effective_user_id ?u) =
      (Inr (JStr ''upload_file''), world_uploading)"
    by (simp add: u get_flow_world_uploading)
  have sel: "select_file world_uploading ?m = Some (?f, Some ''report.pdf'')"
    by (simp add: select_file_def document_message_def document_file_def)
  have small: "\<not> too_large world_uploading ?f"
    using world_uploading_facts(6) by (simp add: too_large_def document_file_def)
  note en = handle_file_upload_body_ends_with_clear_state
      [OF g u(3) sel small report_pdf_supported, unfolded u]
  have w1: "storage_connected ?w1" "redis_reachable ?w1"
    "0 < session_timeout_minutes (config ?w1)"
    "\<forall>q. backend ?w1 q = Responded 200 []
       (Inr [(''job_id'', JStr ''test_job_123''), (''document_id'', JStr ''doc_456'')])"
    using world_uploading_facts by (simp_all add: send_def)
  have p: "[(''job_id'', JStr ''test_job_123''), (''document_id'', JStr ''doc_456'')] \<noteq> []"
    "\<not> has_key [(''job_id'', JStr ''test_job_123''), (''document_id'', JStr ''doc_456'')] ''error''"
    "truthy (dict_get [(''job_id'', JStr ''test_job_123''), (''document_id'', JStr ''doc_456'')]
       ''job_id'')"
    by (simp_all add: has_key_def dict_get_def)
  have j: "dict_get [(''job_id'', JStr ''test_job_123''), (''document_id'', JStr ''doc_456'')]
       ''job_id'' = JStr ''test_job_123''"
    by (simp add: dict_get_def)
  note rec = upload_attempt_records_job [OF w1 p, of ?u ?m ?f "''report.pdf''" 0, unfolded u j]
  show ?thesis
    using body en(1) en(2) en(3) [OF world_uploading_facts(4)]
      en(4) [OF world_uploading_facts(4)] rec process_job_callback_sends_nothing
      world_uploading_facts(7)
    by (simp add: u)
qed


end
